theory Spec2Isabelle
  imports Complex_Main "HOL-Library.Sublist"
begin

section \<open>Data model\<close>

text \<open>
  The program is a set of PostgreSQL tables and PL/pgSQL trigger functions. A table is the
  list of its rows, a row is a record, a nullable column is an \<open>option\<close>, a \<open>uuid\<close> is a
  natural number, \<open>text\<close> is a \<open>string\<close>, and a \<open>numeric\<close> is a rational number. The
  columns \<open>id\<close> and \<open>created_at\<close> of the two notification tables are filled by their
  defaults (\<open>gen_random_uuid()\<close>, \<open>now()\<close>) and are left out of the rows.
  A statement that raises returns \<open>Inl\<close> of the error and the database is then the one
  before the statement.
\<close>

type_synonym uuid = nat

datatype pg_error =
    Numeric_value_out_of_range
  | Check_violation
  | Unique_violation
  | Foreign_key_violation

text \<open>\<open>public.restaurants\<close>: only the columns the trigger functions read or write.\<close>

record restaurant =
  r_id :: uuid
  r_name :: "string option"
  r_rating :: "rat option"

text \<open>\<open>public.restaurant_ratings\<close>.\<close>

record restaurant_rating =
  rr_id :: uuid
  rr_restaurant_id :: uuid
  rr_customer_id :: uuid
  rr_order_id :: "uuid option"
  rr_rating :: rat

text \<open>\<open>public.orders\<close>, as the rating prompt assumes it: id, customer_id, restaurant_id, status.\<close>

record order_row =
  o_id :: uuid
  o_customer_id :: "uuid option"
  o_restaurant_id :: "uuid option"
  o_status :: "string option"

text \<open>\<open>public.blog_posts\<close> and \<open>public.blog_comments\<close>.\<close>

record blog_post =
  bp_id :: uuid
  bp_restaurant_id :: uuid
  bp_title :: string
  bp_is_published :: bool

record blog_comment =
  bc_id :: uuid
  bc_blog_post_id :: uuid
  bc_customer_id :: uuid
  bc_content :: string
  bc_parent_comment_id :: "uuid option"

text \<open>\<open>auth.users\<close> and \<open>public.profiles\<close>.\<close>

record auth_user =
  u_id :: uuid
  u_email :: "string option"

record profile =
  p_id :: uuid
  p_full_name :: "string option"

text \<open>\<open>public.customer_notifications\<close>, with the three columns added for replies.\<close>

record customer_notification =
  cn_customer_id :: uuid
  cn_order_id :: "uuid option"
  cn_title :: string
  cn_message :: string
  cn_status :: string
  cn_blog_post_id :: "uuid option"
  cn_reply_content :: "string option"
  cn_restaurant_name :: "string option"

text \<open>\<open>public.blog_comment_notifications\<close>.\<close>

record blog_comment_notification =
  bcn_restaurant_id :: uuid
  bcn_customer_id :: uuid
  bcn_blog_post_id :: uuid
  bcn_comment_id :: uuid
  bcn_title :: string
  bcn_message :: string
  bcn_status :: string
  bcn_comment_content :: "string option"

record db =
  restaurants :: "restaurant list"
  restaurant_ratings :: "restaurant_rating list"
  orders :: "order_row list"
  blog_posts :: "blog_post list"
  blog_comments :: "blog_comment list"
  users :: "auth_user list"
  profiles :: "profile list"
  customer_notifications :: "customer_notification list"
  blog_comment_notifications :: "blog_comment_notification list"

text \<open>A row-level trigger sees the operation with its \<open>OLD\<close> and \<open>NEW\<close> rows.\<close>

datatype 'row trigger_event = INSERT 'row | UPDATE 'row 'row | DELETE 'row

section \<open>Numeric arithmetic\<close>

text \<open>
  PostgreSQL rounds a \<open>numeric\<close> to the nearest value, ties away from zero.
  \<open>numeric_round x s\<close> is \<open>round(x, s)\<close>; \<open>cast_numeric p s x\<close> is \<open>x::numeric(p,s)\<close>,
  which rounds to \<open>s\<close> decimals and raises when the result needs more than \<open>p - s\<close>
  digits before the point. \<open>avg\<close> is the aggregate: null on no rows. The aggregate is
  taken as the exact quotient (PostgreSQL keeps at least sixteen significant digits of it).
\<close>

definition round_half_away :: "rat \<Rightarrow> int" where
  "round_half_away x = (if 0 \<le> x then \<lfloor>x + 1 / 2\<rfloor> else - \<lfloor>- x + 1 / 2\<rfloor>)"

definition numeric_round :: "rat \<Rightarrow> nat \<Rightarrow> rat" where
  "numeric_round x s = of_int (round_half_away (x * 10 ^ s)) / 10 ^ s"

definition cast_numeric :: "nat \<Rightarrow> nat \<Rightarrow> rat \<Rightarrow> pg_error + rat" where
  "cast_numeric p s x =
     (let y = numeric_round x s
      in if 10 ^ (p - s) \<le> \<bar>y\<bar> then Inl Numeric_value_out_of_range else Inr y)"

definition avg :: "rat list \<Rightarrow> rat option" where
  "avg xs = (if xs = [] then None else Some (sum_list xs / of_nat (length xs)))"

section \<open>Rating aggregator\<close>

text \<open>The rating values of the rows of one restaurant: the \<open>where\<close> clause of the aggregate.\<close>

definition ratings_of :: "uuid \<Rightarrow> db \<Rightarrow> rat list" where
  "ratings_of p_restaurant_id d =
     map rr_rating (filter (\<lambda>r. rr_restaurant_id r = p_restaurant_id) (restaurant_ratings d))"

text \<open>\<open>update public.restaurants set rating = v_final where id = p_restaurant_id\<close>.\<close>

definition set_restaurant_rating :: "uuid \<Rightarrow> rat \<Rightarrow> db \<Rightarrow> db" where
  "set_restaurant_rating p_restaurant_id v_final d =
     d\<lparr>restaurants :=
         map (\<lambda>r. if r_id r = p_restaurant_id then r\<lparr>r_rating := Some v_final\<rparr> else r)
           (restaurants d)\<rparr>"

text \<open>
  \<open>recalculate_restaurant_rating\<close>: \<open>v_customer_avg\<close> is \<open>avg(rating)::numeric(3,2)\<close>,
  \<open>v_final\<close> (a \<open>numeric(2,1)\<close>) is \<open>round(v_customer_avg * 10) / 10.0\<close>, and the restaurant
  is written only when \<open>v_customer_avg\<close> is not null.
\<close>

definition recalculate_restaurant_rating :: "uuid \<Rightarrow> db \<Rightarrow> pg_error + db" where
  "recalculate_restaurant_rating p_restaurant_id d =
     (case avg (ratings_of p_restaurant_id d) of
        None \<Rightarrow> Inr d
      | Some a \<Rightarrow>
          (case cast_numeric 3 2 a of
             Inl e \<Rightarrow> Inl e
           | Inr v_customer_avg \<Rightarrow>
               (case cast_numeric 2 1 (numeric_round (v_customer_avg * 10) 0 / 10) of
                  Inl e \<Rightarrow> Inl e
                | Inr v_final \<Rightarrow> Inr (set_restaurant_rating p_restaurant_id v_final d))))"

text \<open>\<open>handle_restaurant_rating_change\<close>, the row trigger after insert, update or delete.\<close>

definition handle_restaurant_rating_change ::
    "restaurant_rating trigger_event \<Rightarrow> db \<Rightarrow> pg_error + db" where
  "handle_restaurant_rating_change ev d =
     (case ev of
        INSERT new \<Rightarrow> recalculate_restaurant_rating (rr_restaurant_id new) d
      | UPDATE old new \<Rightarrow>
          (if rr_restaurant_id new \<noteq> rr_restaurant_id old
           then (case recalculate_restaurant_rating (rr_restaurant_id old) d of
                   Inl e \<Rightarrow> Inl e
                 | Inr d' \<Rightarrow> recalculate_restaurant_rating (rr_restaurant_id new) d')
           else recalculate_restaurant_rating (rr_restaurant_id new) d)
      | DELETE old \<Rightarrow> recalculate_restaurant_rating (rr_restaurant_id old) d)"

text \<open>
  The constraints of \<open>restaurant_ratings\<close> on a row that is to be stored beside the rows
  \<open>others\<close>: the column type \<open>numeric(2,1)\<close>, the check \<open>rating >= 1 and rating <= 5\<close>,
  the primary key, \<open>unique (restaurant_id, customer_id, order_id)\<close> (two rows conflict
  only when all three columns are equal and none is null, so a null \<open>order_id\<close> never
  conflicts), and the foreign keys. The result is the row as stored.
\<close>

definition same_rating_key :: "restaurant_rating \<Rightarrow> restaurant_rating \<Rightarrow> bool" where
  "same_rating_key a b =
     (rr_restaurant_id a = rr_restaurant_id b \<and> rr_customer_id a = rr_customer_id b
      \<and> (case (rr_order_id a, rr_order_id b) of
            (Some x, Some y) \<Rightarrow> x = y
          | _ \<Rightarrow> False))"

definition rating_references_ok :: "restaurant_rating \<Rightarrow> db \<Rightarrow> bool" where
  "rating_references_ok row d =
     (list_ex (\<lambda>r. r_id r = rr_restaurant_id row) (restaurants d)
      \<and> list_ex (\<lambda>u. u_id u = rr_customer_id row) (users d)
      \<and> (case rr_order_id row of
            None \<Rightarrow> True
          | Some oid \<Rightarrow> list_ex (\<lambda>x. o_id x = oid) (orders d)))"

definition check_restaurant_rating ::
    "restaurant_rating \<Rightarrow> restaurant_rating list \<Rightarrow> db \<Rightarrow> pg_error + restaurant_rating" where
  "check_restaurant_rating row others d =
     (case cast_numeric 2 1 (rr_rating row) of
        Inl e \<Rightarrow> Inl e
      | Inr v \<Rightarrow>
          if \<not> (1 \<le> v \<and> v \<le> 5) then Inl Check_violation
          else if list_ex (\<lambda>r. rr_id r = rr_id row) others then Inl Unique_violation
          else if list_ex (same_rating_key row) others then Inl Unique_violation
          else if \<not> rating_references_ok row d then Inl Foreign_key_violation
          else Inr (row\<lparr>rr_rating := v\<rparr>))"

text \<open>
  The three statements on \<open>restaurant_ratings\<close>, each for one row, with the trigger
  \<open>trg_restaurant_ratings_change\<close> fired after the row is changed.
\<close>

definition insert_restaurant_rating :: "restaurant_rating \<Rightarrow> db \<Rightarrow> pg_error + db" where
  "insert_restaurant_rating row d =
     (case check_restaurant_rating row (restaurant_ratings d) d of
        Inl e \<Rightarrow> Inl e
      | Inr new \<Rightarrow>
          handle_restaurant_rating_change (INSERT new)
            (d\<lparr>restaurant_ratings := restaurant_ratings d @ [new]\<rparr>))"

definition update_restaurant_rating :: "uuid \<Rightarrow> restaurant_rating \<Rightarrow> db \<Rightarrow> pg_error + db" where
  "update_restaurant_rating rid row d =
     (case find (\<lambda>r. rr_id r = rid) (restaurant_ratings d) of
        None \<Rightarrow> Inr d
      | Some old \<Rightarrow>
          (case check_restaurant_rating row
                  (filter (\<lambda>r. rr_id r \<noteq> rid) (restaurant_ratings d)) d of
             Inl e \<Rightarrow> Inl e
           | Inr new \<Rightarrow>
               handle_restaurant_rating_change (UPDATE old new)
                 (d\<lparr>restaurant_ratings :=
                      map (\<lambda>r. if rr_id r = rid then new else r) (restaurant_ratings d)\<rparr>)))"

definition delete_restaurant_rating :: "uuid \<Rightarrow> db \<Rightarrow> pg_error + db" where
  "delete_restaurant_rating rid d =
     (case find (\<lambda>r. rr_id r = rid) (restaurant_ratings d) of
        None \<Rightarrow> Inr d
      | Some old \<Rightarrow>
          handle_restaurant_rating_change (DELETE old)
            (d\<lparr>restaurant_ratings := filter (\<lambda>r. rr_id r \<noteq> rid) (restaurant_ratings d)\<rparr>))"

section \<open>Order-completion rating prompt\<close>

text \<open>
  \<open>public.customer_notifications\<close> is created outside these scripts; the insert is taken
  to append the row (the handlers only write the status \<open>unread\<close>, a recipient copied
  from a stored row, and non-null title and message).
\<close>

definition insert_customer_notification :: "customer_notification \<Rightarrow> db \<Rightarrow> db" where
  "insert_customer_notification n d =
     d\<lparr>customer_notifications := customer_notifications d @ [n]\<rparr>"

text \<open>The row the prompt inserts: customer, order, fixed title and message, unread.\<close>

definition rating_prompt :: "uuid \<Rightarrow> uuid \<Rightarrow> customer_notification" where
  "rating_prompt customer_id order_id =
     \<lparr>cn_customer_id = customer_id,
      cn_order_id = Some order_id,
      cn_title = ''Your order is completed'',
      cn_message = ''Your order is completed and it will be served in a short while. Please give us rating for our service.'',
      cn_status = ''unread'',
      cn_blog_post_id = None,
      cn_reply_content = None,
      cn_restaurant_name = None\<rparr>"

text \<open>
  \<open>select id into v_existing_rating_id from restaurant_ratings where restaurant_id = ...
  and customer_id = ... and order_id = NEW.id limit 1\<close>.
\<close>

definition rates_order :: "uuid \<Rightarrow> uuid \<Rightarrow> uuid \<Rightarrow> restaurant_rating \<Rightarrow> bool" where
  "rates_order restaurant_id customer_id order_id r =
     (rr_restaurant_id r = restaurant_id \<and> rr_customer_id r = customer_id
      \<and> rr_order_id r = Some order_id)"

definition existing_rating_id :: "uuid \<Rightarrow> uuid \<Rightarrow> uuid \<Rightarrow> db \<Rightarrow> uuid option" where
  "existing_rating_id restaurant_id customer_id order_id d =
     map_option rr_id
       (find (rates_order restaurant_id customer_id order_id) (restaurant_ratings d))"

text \<open>
  \<open>handle_order_status_rating_prompt\<close>, the row trigger after update on \<open>orders\<close>:
  the guard on a null customer or restaurant comes first, then the test of \<open>TG_OP\<close>, of the
  new status and of \<open>OLD.status is distinct from NEW.status\<close>.
\<close>

definition handle_order_status_rating_prompt :: "order_row trigger_event \<Rightarrow> db \<Rightarrow> db" where
  "handle_order_status_rating_prompt ev d =
     (case ev of
        INSERT new \<Rightarrow> d
      | DELETE old \<Rightarrow> d
      | UPDATE old new \<Rightarrow>
          (case (o_customer_id new, o_restaurant_id new) of
             (Some customer_id, Some restaurant_id) \<Rightarrow>
               if (o_status new = Some ''completed'' \<or> o_status new = Some ''served'')
                  \<and> o_status old \<noteq> o_status new
               then (case existing_rating_id restaurant_id customer_id (o_id new) d of
                       None \<Rightarrow> insert_customer_notification (rating_prompt customer_id (o_id new)) d
                     | Some v_existing_rating_id \<Rightarrow> d)
               else d
           | _ \<Rightarrow> d))"

section \<open>Comment notifications\<close>

definition coalesce :: "'a option \<Rightarrow> 'a \<Rightarrow> 'a" where
  "coalesce v dflt = (case v of None \<Rightarrow> dflt | Some x \<Rightarrow> x)"

text \<open>\<open>split_part(s, c, 1)\<close>: the part of \<open>s\<close> before the first \<open>c\<close>, all of \<open>s\<close> without one.\<close>

definition split_part_first :: "char \<Rightarrow> string \<Rightarrow> string" where
  "split_part_first c s = takeWhile (\<lambda>x. x \<noteq> c) s"

text \<open>
  The preview both handlers compute:
  \<open>case when length(content) > 100 then left(content, 97) || '...' else content end\<close>.
\<close>

definition content_preview :: "string \<Rightarrow> string" where
  "content_preview content =
     (if 100 < length content then take 97 content @ ''...'' else content)"

definition find_blog_post :: "uuid \<Rightarrow> db \<Rightarrow> blog_post option" where
  "find_blog_post post_id d = find (\<lambda>bp. bp_id bp = post_id) (blog_posts d)"

text \<open>
  \<open>select r.name from blog_posts bp join restaurants r on bp.restaurant_id = r.id
  where bp.id = NEW.blog_post_id\<close>: null without the post, without the restaurant, or
  with a null name.
\<close>

definition restaurant_name_of_post :: "uuid \<Rightarrow> db \<Rightarrow> string option" where
  "restaurant_name_of_post post_id d =
     (case find_blog_post post_id d of
        None \<Rightarrow> None
      | Some bp \<Rightarrow>
          (case find (\<lambda>r. r_id r = bp_restaurant_id bp) (restaurants d) of
             None \<Rightarrow> None
           | Some r \<Rightarrow> r_name r))"

text \<open>\<open>select customer_id from blog_comments where id = NEW.parent_comment_id\<close>.\<close>

definition parent_author :: "uuid \<Rightarrow> db \<Rightarrow> uuid option" where
  "parent_author parent_comment_id d =
     map_option bc_customer_id (find (\<lambda>c. bc_id c = parent_comment_id) (blog_comments d))"

text \<open>
  \<open>handle_blog_comment_reply\<close> (FIXED_COMPLETE_SCRIPT.sql), the row trigger after insert on
  \<open>blog_comments\<close>; \<open>new\<close> is the inserted row, already in the table. The blog title it
  also selects is not used.
\<close>

definition handle_blog_comment_reply :: "blog_comment \<Rightarrow> db \<Rightarrow> db" where
  \<open>handle_blog_comment_reply new d =
     (case bc_parent_comment_id new of
        None \<Rightarrow> d
      | Some parent_comment_id \<Rightarrow>
          (case parent_author parent_comment_id d of
             None \<Rightarrow> d
           | Some v_customer_id \<Rightarrow>
               (let v_restaurant_name = restaurant_name_of_post (bc_blog_post_id new) d;
                    v_reply_content = bc_content new;
                    v_notification_message =
                      coalesce v_restaurant_name ''Restaurant'' @ '' replied: "''
                        @ content_preview v_reply_content @ ''"''
                in insert_customer_notification
                     \<lparr>cn_customer_id = v_customer_id,
                      cn_order_id = None,
                      cn_title = ''Comment Reply'',
                      cn_message = v_notification_message,
                      cn_status = ''unread'',
                      cn_blog_post_id = Some (bc_blog_post_id new),
                      cn_reply_content = Some v_reply_content,
                      cn_restaurant_name = v_restaurant_name\<rparr> d)))\<close>

text \<open>
  \<open>select coalesce(p.full_name, split_part(u.email, '@', 1)) from auth.users u
  left join public.profiles p on p.id = u.id where u.id = NEW.customer_id\<close>.
\<close>

definition customer_display_name :: "uuid \<Rightarrow> db \<Rightarrow> string option" where
  "customer_display_name customer_id d =
     (case find (\<lambda>u. u_id u = customer_id) (users d) of
        None \<Rightarrow> None
      | Some u \<Rightarrow>
          (case (case find (\<lambda>p. p_id p = u_id u) (profiles d) of
                   None \<Rightarrow> None
                 | Some p \<Rightarrow> p_full_name p) of
             Some full_name \<Rightarrow> Some full_name
           | None \<Rightarrow> map_option (split_part_first CHR ''@'') (u_email u)))"

text \<open>
  The insert into \<open>blog_comment_notifications\<close> with the constraints of the table: the
  check on \<open>status\<close>, \<open>blog_comment_notifications_comment_id_unique\<close>, and the four
  foreign keys. The handler is \<open>SECURITY DEFINER\<close>, so the row-level security policies of
  the table, which are written for the restaurant owner, do not apply to its insert.
\<close>

definition notification_references_ok :: "blog_comment_notification \<Rightarrow> db \<Rightarrow> bool" where
  "notification_references_ok n d =
     (list_ex (\<lambda>r. r_id r = bcn_restaurant_id n) (restaurants d)
      \<and> list_ex (\<lambda>p. p_id p = bcn_customer_id n) (profiles d)
      \<and> list_ex (\<lambda>bp. bp_id bp = bcn_blog_post_id n) (blog_posts d)
      \<and> list_ex (\<lambda>c. bc_id c = bcn_comment_id n) (blog_comments d))"

definition insert_blog_comment_notification ::
    "blog_comment_notification \<Rightarrow> db \<Rightarrow> pg_error + db" where
  "insert_blog_comment_notification n d =
     (if \<not> (bcn_status n = ''unread'' \<or> bcn_status n = ''read'') then Inl Check_violation
      else if list_ex (\<lambda>m. bcn_comment_id m = bcn_comment_id n) (blog_comment_notifications d)
        then Inl Unique_violation
      else if \<not> notification_references_ok n d then Inl Foreign_key_violation
      else Inr (d\<lparr>blog_comment_notifications := blog_comment_notifications d @ [n]\<rparr>))"

text \<open>
  \<open>handle_blog_comment_notification\<close>, the other row trigger after insert on
  \<open>blog_comments\<close>. The restaurant name it also selects is not used.
\<close>

definition handle_blog_comment_notification :: "blog_comment \<Rightarrow> db \<Rightarrow> pg_error + db" where
  \<open>handle_blog_comment_notification new d =
     (case bc_parent_comment_id new of
        Some parent_comment_id \<Rightarrow> Inr d
      | None \<Rightarrow>
          (case map_option bp_restaurant_id (find_blog_post (bc_blog_post_id new) d) of
             None \<Rightarrow> Inr d
           | Some v_restaurant_id \<Rightarrow>
               (let v_customer_name = customer_display_name (bc_customer_id new) d;
                    v_blog_title = map_option bp_title (find_blog_post (bc_blog_post_id new) d);
                    v_notification_message =
                      coalesce v_customer_name ''A customer'' @ '' commented on your blog post "''
                        @ coalesce v_blog_title ''a blog post'' @ ''": "''
                        @ content_preview (bc_content new) @ ''"''
                in insert_blog_comment_notification
                     \<lparr>bcn_restaurant_id = v_restaurant_id,
                      bcn_customer_id = bc_customer_id new,
                      bcn_blog_post_id = bc_blog_post_id new,
                      bcn_comment_id = bc_id new,
                      bcn_title = ''New Blog Comment'',
                      bcn_message = v_notification_message,
                      bcn_status = ''unread'',
                      bcn_comment_content = Some (bc_content new)\<rparr> d)))\<close>



section \<open>Vocabulary of the properties\<close>

text \<open>
  The rating field of a restaurant as a reader of the table sees it: \<open>None\<close> without the
  restaurant, \<open>Some None\<close> for a null rating.
\<close>

definition rating_field :: "uuid \<Rightarrow> db \<Rightarrow> rat option option" where
  "rating_field p d = map_option r_rating (find (\<lambda>r. r_id r = p) (restaurants d))"

text \<open>The database once the rating row \<open>rid\<close> is gone and before any trigger has run.\<close>

definition without_rating :: "uuid \<Rightarrow> db \<Rightarrow> db" where
  "without_rating rid d =
     d\<lparr>restaurant_ratings := filter (\<lambda>r. rr_id r \<noteq> rid) (restaurant_ratings d)\<rparr>"

text \<open>
  What is stored about a customer: the full name of the profile and the email of the user,
  each \<open>None\<close> without the row or with a null column.
\<close>

definition stored_full_name :: "uuid \<Rightarrow> db \<Rightarrow> string option" where
  "stored_full_name customer_id d =
     (case find (\<lambda>p. p_id p = customer_id) (profiles d) of
        None \<Rightarrow> None
      | Some p \<Rightarrow> p_full_name p)"

definition stored_email :: "uuid \<Rightarrow> db \<Rightarrow> string option" where
  "stored_email customer_id d =
     (case find (\<lambda>u. u_id u = customer_id) (users d) of
        None \<Rightarrow> None
      | Some u \<Rightarrow> u_email u)"

text \<open>
  The invariants of the ratings table. A value is well-formed when it lies between 1 and 5
  and rounding it to one decimal leaves it as it is. \<open>rows_for_triple\<close> are the rows of one
  (restaurant, customer, order) triple, the order possibly null. A table is well-formed when
  every value is, the primary keys are distinct, and the triples of the rows that have an
  order are distinct.
\<close>

definition rating_value_ok :: "rat \<Rightarrow> bool" where
  "rating_value_ok v = (1 \<le> v \<and> v \<le> 5 \<and> numeric_round v 1 = v)"

definition rating_key :: "restaurant_rating \<Rightarrow> uuid \<times> uuid \<times> uuid option" where
  "rating_key r = (rr_restaurant_id r, rr_customer_id r, rr_order_id r)"

definition rows_for_triple ::
    "uuid \<Rightarrow> uuid \<Rightarrow> uuid option \<Rightarrow> restaurant_rating list \<Rightarrow> restaurant_rating list" where
  "rows_for_triple restaurant_id customer_id order_id rows =
     filter (\<lambda>r. rating_key r = (restaurant_id, customer_id, order_id)) rows"

definition has_order :: "restaurant_rating \<Rightarrow> bool" where
  "has_order r = (rr_order_id r \<noteq> None)"

definition ratings_table_ok :: "restaurant_rating list \<Rightarrow> bool" where
  "ratings_table_ok rows =
     (list_all (\<lambda>r. rating_value_ok (rr_rating r)) rows
      \<and> distinct (map rr_id rows)
      \<and> distinct (map rating_key (filter has_order rows)))"

section \<open>The specification's wording\<close>

text \<open>
  The rating the specification describes: the arithmetic mean of the rating values,
  rounded to one decimal place, half up at the tenths digit.
\<close>

definition spec_restaurant_rating :: "rat list \<Rightarrow> rat option" where
  "spec_restaurant_rating xs = map_option (\<lambda>m. of_int \<lfloor>m * 10 + 1 / 2\<rfloor> / 10) (avg xs)"

text \<open>
  The preview the specification describes: the first \<open>min(100, len)\<close> characters of the
  content, followed by an ellipsis iff the content is longer than 100 characters.
\<close>

definition spec_reply_preview :: "string \<Rightarrow> string" where
  "spec_reply_preview content =
     take (min 100 (length content)) content @ (if 100 < length content then ''...'' else [])"

text \<open>
  The display name the specification describes: the stored profile full name when present,
  otherwise the part of the email before the at sign; it names nothing else.
\<close>

definition spec_customer_display_name :: "string option \<Rightarrow> string option \<Rightarrow> string option" where
  "spec_customer_display_name full_name email =
     (case full_name of
        Some n \<Rightarrow> Some n
      | None \<Rightarrow> map_option (split_part_first CHR ''@'') email)"

section \<open>Example states\<close>

definition empty_db :: db where
  "empty_db = \<lparr>restaurants = [], restaurant_ratings = [], orders = [], blog_posts = [],
     blog_comments = [], users = [], profiles = [], customer_notifications = [],
     blog_comment_notifications = []\<rparr>"

text \<open>Three restaurants with administrator-set ratings and one customer rating.\<close>

definition one_rating_db :: db where
  "one_rating_db = empty_db\<lparr>
     restaurants := [\<lparr>r_id = 1, r_name = Some ''Yangon Bistro'', r_rating = Some 4\<rparr>,
                     \<lparr>r_id = 2, r_name = Some ''Tokyo Bowl'', r_rating = None\<rparr>,
                     \<lparr>r_id = 3, r_name = None, r_rating = Some (9 / 2)\<rparr>],
     users := [\<lparr>u_id = 7, u_email = Some ''mya@example.com''\<rparr>],
     restaurant_ratings := [\<lparr>rr_id = 1, rr_restaurant_id = 1, rr_customer_id = 7,
                             rr_order_id = None, rr_rating = 4\<rparr>]\<rparr>"

text \<open>
  Ten whole-star ratings of restaurant 1, six of 4 and four of 3, by ten customers; the
  stored rating is their mean, 3.6.
\<close>

definition star_rating :: "uuid \<Rightarrow> rat \<Rightarrow> restaurant_rating" where
  "star_rating i v =
     \<lparr>rr_id = i, rr_restaurant_id = 1, rr_customer_id = i, rr_order_id = None, rr_rating = v\<rparr>"

definition ten_ratings_db :: db where
  "ten_ratings_db = empty_db\<lparr>
     restaurants := [\<lparr>r_id = 1, r_name = Some ''Yangon Bistro'', r_rating = Some (18 / 5)\<rparr>],
     users := map (\<lambda>i. \<lparr>u_id = i, u_email = None\<rparr>) [1..<12],
     restaurant_ratings := map (\<lambda>i. star_rating i (if i \<le> 6 then 4 else 3)) [1..<11]\<rparr>"

text \<open>An order at restaurant 1 that has no customer.\<close>

definition guest_order :: "string \<Rightarrow> order_row" where
  "guest_order status =
     \<lparr>o_id = 5, o_customer_id = None, o_restaurant_id = Some 1, o_status = Some status\<rparr>"

text \<open>Restaurant 1 with that order, completed, and no rating row at all.\<close>

definition guest_order_db :: db where
  "guest_order_db = empty_db\<lparr>
     restaurants := [\<lparr>r_id = 1, r_name = Some ''Yangon Bistro'', r_rating = Some 4\<rparr>],
     orders := [guest_order ''completed'']\<rparr>"

text \<open>An order of customer 7 at restaurant 1.\<close>

definition customer_order :: "string \<Rightarrow> order_row" where
  "customer_order status =
     \<lparr>o_id = 6, o_customer_id = Some 7, o_restaurant_id = Some 1, o_status = Some status\<rparr>"

text \<open>
  The one-rating database with the completed order 6 of customer 7, a second rating of
  restaurant 1 by customer 7, for that order (4.96, stored as 5.0), and the database once
  that rating is inserted: the mean of 4 and 5 is written to restaurant 1.
\<close>

definition order_db :: db where
  "order_db = one_rating_db\<lparr>orders := [customer_order ''completed'']\<rparr>"

definition order_rating :: restaurant_rating where
  "order_rating =
     \<lparr>rr_id = 2, rr_restaurant_id = 1, rr_customer_id = 7, rr_order_id = Some 6,
      rr_rating = 124 / 25\<rparr>"

definition rated_order_db :: db where
  "rated_order_db = order_db\<lparr>
     restaurants := [\<lparr>r_id = 1, r_name = Some ''Yangon Bistro'', r_rating = Some (9 / 2)\<rparr>,
                     \<lparr>r_id = 2, r_name = Some ''Tokyo Bowl'', r_rating = None\<rparr>,
                     \<lparr>r_id = 3, r_name = None, r_rating = Some (9 / 2)\<rparr>],
     restaurant_ratings := [\<lparr>rr_id = 1, rr_restaurant_id = 1, rr_customer_id = 7,
                             rr_order_id = None, rr_rating = 4\<rparr>,
                            \<lparr>rr_id = 2, rr_restaurant_id = 1, rr_customer_id = 7,
                             rr_order_id = Some 6, rr_rating = 5\<rparr>]\<rparr>"

text \<open>A second rating of restaurant 1 by customer 7 with no order, as the first one.\<close>

definition orderless_rating :: restaurant_rating where
  "orderless_rating =
     \<lparr>rr_id = 2, rr_restaurant_id = 1, rr_customer_id = 7, rr_order_id = None, rr_rating = 5\<rparr>"

text \<open>
  A blog. Restaurant 1 has the published post 10 and restaurant 2, which has no name, the
  published post 11; customer 7 (profile name Mya) wrote the root comments 20 on post 10
  and 25 on post 11; customer 8 has neither a profile name nor an email; user 9 is the
  owner who replies.
\<close>

definition blog_db :: db where
  "blog_db = empty_db\<lparr>
     restaurants := [\<lparr>r_id = 1, r_name = Some ''Yangon Bistro'', r_rating = Some 4\<rparr>,
                     \<lparr>r_id = 2, r_name = None, r_rating = None\<rparr>],
     users := [\<lparr>u_id = 7, u_email = Some ''mya@example.com''\<rparr>,
               \<lparr>u_id = 8, u_email = None\<rparr>,
               \<lparr>u_id = 9, u_email = Some ''owner@bistro.example''\<rparr>],
     profiles := [\<lparr>p_id = 7, p_full_name = Some ''Mya''\<rparr>,
                  \<lparr>p_id = 8, p_full_name = None\<rparr>,
                  \<lparr>p_id = 9, p_full_name = None\<rparr>],
     blog_posts := [\<lparr>bp_id = 10, bp_restaurant_id = 1, bp_title = ''New menu'',
                      bp_is_published = True\<rparr>,
                    \<lparr>bp_id = 11, bp_restaurant_id = 2, bp_title = ''Opening'',
                      bp_is_published = True\<rparr>],
     blog_comments := [\<lparr>bc_id = 20, bc_blog_post_id = 10, bc_customer_id = 7,
                         bc_content = ''Great food!'', bc_parent_comment_id = None\<rparr>,
                       \<lparr>bc_id = 25, bc_blog_post_id = 11, bc_customer_id = 7,
                         bc_content = ''When?'', bc_parent_comment_id = None\<rparr>]\<rparr>"

definition root_comment :: "uuid \<Rightarrow> uuid \<Rightarrow> string \<Rightarrow> blog_comment" where
  "root_comment i customer_id content =
     \<lparr>bc_id = i, bc_blog_post_id = 10, bc_customer_id = customer_id, bc_content = content,
      bc_parent_comment_id = None\<rparr>"

definition reply_comment :: "uuid \<Rightarrow> uuid \<Rightarrow> uuid \<Rightarrow> string \<Rightarrow> blog_comment" where
  "reply_comment i post_id parent content =
     \<lparr>bc_id = i, bc_blog_post_id = post_id, bc_customer_id = 9, bc_content = content,
      bc_parent_comment_id = Some parent\<rparr>"

text \<open>The database after the insert of a comment and before its triggers.\<close>

definition with_comment :: "blog_comment \<Rightarrow> db \<Rightarrow> db" where
  "with_comment c d = d\<lparr>blog_comments := blog_comments d @ [c]\<rparr>"

text \<open>
  The specification's scenario: the reply 21 to comment 20, with 101 times the letter x, and
  the database once that reply is stored.
\<close>

definition long_reply :: blog_comment where
  "long_reply = reply_comment 21 10 20 (replicate 101 CHR ''x'')"

definition long_reply_db :: db where
  "long_reply_db = with_comment long_reply blog_db"



text \<open>
  Three root comments on post 10 and the database once each is stored: one by customer 7,
  one by customer 8, who has neither a profile name nor an email, and one by user 9, who
  has an email and no profile name.
\<close>

definition hello_comment :: blog_comment where
  "hello_comment = root_comment 22 7 ''Hello''"

definition hello_db :: db where
  "hello_db = with_comment hello_comment blog_db"

definition nameless_comment :: blog_comment where
  "nameless_comment = root_comment 27 8 ''Hello''"

definition nameless_db :: db where
  "nameless_db = with_comment nameless_comment blog_db"

definition email_comment :: blog_comment where
  "email_comment = root_comment 28 9 ''Welcome''"

definition email_db :: db where
  "email_db = with_comment email_comment blog_db"

section \<open>Numeric rounding\<close>

lemma round_half_away_of_int: "round_half_away (of_int k) = k"
proof (cases "0 \<le> k")
  case True
  have "\<lfloor>(of_int k :: rat) + 1 / 2\<rfloor> = k" by linarith
  with True show ?thesis by (simp add: round_half_away_def)
next
  case False
  have "\<lfloor>- (of_int k :: rat) + 1 / 2\<rfloor> = - k" by linarith
  with False show ?thesis by (simp add: round_half_away_def)
qed

lemma numeric_round_idem: "numeric_round (numeric_round x s) s = numeric_round x s"
  by (simp add: numeric_round_def round_half_away_of_int)

lemma cast_numeric_Inr: "cast_numeric p s x = Inr v \<Longrightarrow> v = numeric_round x s"
  by (auto simp: cast_numeric_def Let_def split: if_splits)

lemma round_half_away_bounds:
  assumes "of_int a \<le> x" and "x \<le> of_int b" and "0 \<le> a"
  shows "a \<le> round_half_away x \<and> round_half_away x \<le> b"
proof -
  from assms have "0 \<le> x" by (metis of_int_0_le_iff order_trans)
  then have r: "round_half_away x = \<lfloor>x + 1 / 2\<rfloor>" by (simp add: round_half_away_def)
  from assms(1) have "a \<le> \<lfloor>x + 1 / 2\<rfloor>" by linarith
  moreover from assms(2) have "\<lfloor>x + 1 / 2\<rfloor> \<le> b" by linarith
  ultimately show ?thesis using r by simp
qed

lemma mean_bounds:
  fixes xs :: "rat list"
  assumes "xs \<noteq> []" and "\<forall>v \<in> set xs. lo \<le> v \<and> v \<le> hi"
  shows "lo \<le> sum_list xs / of_nat (length xs) \<and> sum_list xs / of_nat (length xs) \<le> hi"
proof -
  from assms(2) have "sum_list (map (\<lambda>_. lo) xs) \<le> sum_list xs"
    by (induction xs) (auto intro: add_mono)
  then have lo: "of_nat (length xs) * lo \<le> sum_list xs" by (simp add: sum_list_triv)
  from assms(2) have "sum_list xs \<le> sum_list (map (\<lambda>_. hi) xs)"
    by (induction xs) (auto intro: add_mono)
  then have hi: "sum_list xs \<le> of_nat (length xs) * hi" by (simp add: sum_list_triv)
  from assms(1) have pos: "(0::rat) < of_nat (length xs)" by simp
  from lo hi pos show ?thesis
    by (simp add: pos_le_divide_eq pos_divide_le_eq mult.commute)
qed

lemma casts_of_a_mean:
  assumes m: "1 \<le> m" "m \<le> 5"
  shows "cast_numeric 3 2 m = Inr (numeric_round m 2)"
    and "cast_numeric 2 1 (numeric_round (numeric_round m 2 * 10) 0 / 10)
         = Inr (numeric_round (numeric_round m 2 * 10) 0 / 10)"
proof -
  define h where "h = round_half_away (m * 10 ^ 2)"
  from m have "of_int 100 \<le> m * 10 ^ 2" "m * 10 ^ 2 \<le> of_int 500" by simp_all
  from round_half_away_bounds [OF this] have h: "100 \<le> h" "h \<le> 500" by (simp_all add: h_def)
  define a where "a = numeric_round m 2"
  have a: "a = of_int h / 100" by (simp add: a_def h_def numeric_round_def)
  from h have a_range: "1 \<le> a" "a \<le> 5" by (simp_all add: a)
  then show "cast_numeric 3 2 m = Inr (numeric_round m 2)"
    by (simp add: cast_numeric_def Let_def a_def [symmetric])
  define t where "t = round_half_away (a * 10 * 10 ^ 0)"
  from a_range have "of_int 10 \<le> a * 10 * 10 ^ 0" "a * 10 * 10 ^ 0 \<le> of_int 50" by simp_all
  from round_half_away_bounds [OF this] have t: "10 \<le> t" "t \<le> 50" by (simp_all add: t_def)
  define z where "z = numeric_round (a * 10) 0 / 10"
  have z: "z = of_int t / 10" by (simp add: z_def t_def numeric_round_def)
  have "of_int t / 10 * 10 ^ 1 = (of_int t :: rat)" by simp
  moreover have "round_half_away (of_int t) = t"
  proof -
    have "\<lfloor>(of_int t :: rat) + 1 / 2\<rfloor> = t" by linarith
    with t show ?thesis by (simp add: round_half_away_def)
  qed
  ultimately have "round_half_away (of_int t / 10 * 10 ^ 1) = t" by simp
  then have idem: "numeric_round z 1 = z" by (simp add: z numeric_round_def)
  from t have "\<bar>z\<bar> < 10" by (simp add: z)
  with idem have "cast_numeric 2 1 z = Inr z" by (simp add: cast_numeric_def Let_def)
  then show "cast_numeric 2 1 (numeric_round (numeric_round m 2 * 10) 0 / 10)
         = Inr (numeric_round (numeric_round m 2 * 10) 0 / 10)"
    by (simp add: z_def a_def)
qed

section \<open>Rating aggregator: the value written\<close>

text \<open>
  What the aggregator writes when the restaurant has ratings, all between 1 and 5: the mean
  rounded to two decimals and then to one. Neither cast raises.
\<close>

lemma recalculate_writes_twice_rounded_mean:
  assumes rows: "ratings_of p d \<noteq> []"
    and range: "\<forall>v \<in> set (ratings_of p d). 1 \<le> v \<and> v \<le> 5"
  shows "recalculate_restaurant_rating p d
         = Inr (set_restaurant_rating p
             (numeric_round
                (numeric_round (sum_list (ratings_of p d) / of_nat (length (ratings_of p d))) 2 * 10) 0
              / 10) d)"
proof -
  define m where "m = sum_list (ratings_of p d) / of_nat (length (ratings_of p d))"
  from mean_bounds [OF rows range] have "1 \<le> m" "m \<le> 5" by (simp_all add: m_def)
  from casts_of_a_mean [OF this] rows show ?thesis
    by (simp add: recalculate_restaurant_rating_def avg_def m_def)
qed

text \<open>
  Claim C1, at the insert of an eleventh rating. Restaurant 1 has six ratings of 4 and four
  of 3, and the rating 3.6; an eleventh rating, of 3, is inserted. The mean of the eleven values is 39/11 = 3.5454...,
  which is 3.5 at one decimal place; the trigger stores 3.6, because the mean is first
  rounded to 3.55 by the cast to \<open>numeric(3,2)\<close> and then rounded again.
\<close>

theorem eleventh_rating_is_rounded_twice:
  "(case insert_restaurant_rating (star_rating 11 3) ten_ratings_db of
      Inl e \<Rightarrow> None
    | Inr d \<Rightarrow> Some (ratings_of 1 d, rating_field 1 d, spec_restaurant_rating (ratings_of 1 d)))
   = Some ([4, 4, 4, 4, 4, 4, 3, 3, 3, 3, 3], Some (Some (18 / 5)), Some (7 / 2))"
  by code_simp

section \<open>Rating aggregator: a restaurant left without ratings\<close>

lemma recalculate_no_rows:
  "ratings_of p d = [] \<Longrightarrow> recalculate_restaurant_rating p d = Inr d"
  by (simp add: recalculate_restaurant_rating_def avg_def)

lemma recalculate_writes:
  assumes "recalculate_restaurant_rating p d = Inr d'"
  shows "d' = d \<or> (\<exists>v. d' = set_restaurant_rating p v d)"
  using assms
  by (auto simp: recalculate_restaurant_rating_def split: option.splits sum.splits)

lemma find_map_other:
  "q \<noteq> p \<Longrightarrow>
   map_option r_rating (find (\<lambda>r. r_id r = q)
      (map (\<lambda>r. if r_id r = p then r\<lparr>r_rating := Some v\<rparr> else r) rs))
   = map_option r_rating (find (\<lambda>r. r_id r = q) rs)"
  by (induction rs) auto

lemma rating_field_set_other:
  "q \<noteq> p \<Longrightarrow> rating_field q (set_restaurant_rating p v d) = rating_field q d"
  by (simp add: rating_field_def set_restaurant_rating_def find_map_other)

lemma ratings_of_set [simp]:
  "ratings_of q (set_restaurant_rating p v d) = ratings_of q d"
  by (simp add: ratings_of_def set_restaurant_rating_def)

lemma recalculate_ratings_of:
  "recalculate_restaurant_rating p d = Inr d' \<Longrightarrow> ratings_of q d' = ratings_of q d"
  by (auto dest: recalculate_writes)

lemma recalculate_other_field:
  "recalculate_restaurant_rating p d = Inr d' \<Longrightarrow> q \<noteq> p \<Longrightarrow> rating_field q d' = rating_field q d"
  by (auto dest: recalculate_writes simp: rating_field_set_other)

lemma update_moved_keeps_old:
  assumes upd: "update_restaurant_rating rid row d = Inr d'"
    and old: "find (\<lambda>r. rr_id r = rid) (restaurant_ratings d) = Some old"
    and moved: "rr_restaurant_id row \<noteq> rr_restaurant_id old"
    and none: "ratings_of (rr_restaurant_id old) d' = []"
  shows "rating_field (rr_restaurant_id old) d' = rating_field (rr_restaurant_id old) d"
proof -
  from upd old obtain new where
    chk: "check_restaurant_rating row (filter (\<lambda>r. rr_id r \<noteq> rid) (restaurant_ratings d)) d = Inr new"
    and trg: "handle_restaurant_rating_change (UPDATE old new)
       (d\<lparr>restaurant_ratings := map (\<lambda>r. if rr_id r = rid then new else r) (restaurant_ratings d)\<rparr>) = Inr d'"
    by (auto simp: update_restaurant_rating_def split: sum.splits)
  let ?d1 = "d\<lparr>restaurant_ratings := map (\<lambda>r. if rr_id r = rid then new else r) (restaurant_ratings d)\<rparr>"
  from chk have nr: "rr_restaurant_id new = rr_restaurant_id row"
    by (auto simp: check_restaurant_rating_def split: sum.splits if_splits)
  with moved have ne: "rr_restaurant_id new \<noteq> rr_restaurant_id old" by simp
  from trg ne obtain d2 where
    r1: "recalculate_restaurant_rating (rr_restaurant_id old) ?d1 = Inr d2"
    and r2: "recalculate_restaurant_rating (rr_restaurant_id new) d2 = Inr d'"
    by (auto simp: handle_restaurant_rating_change_def split: sum.splits)
  from r2 none have "ratings_of (rr_restaurant_id old) d2 = []"
    by (simp add: recalculate_ratings_of)
  with r1 have "ratings_of (rr_restaurant_id old) ?d1 = []"
    by (simp add: recalculate_ratings_of)
  with r1 have "d2 = ?d1" by (simp add: recalculate_no_rows)
  moreover from r2 ne have "rating_field (rr_restaurant_id old) d' = rating_field (rr_restaurant_id old) d2"
    by (metis recalculate_other_field)
  ultimately show ?thesis by (simp add: rating_field_def)
qed

text \<open>
  Claim C5. When no rating row of a restaurant remains, the aggregator writes nothing:
  recalculating that restaurant returns the database as it is; deleting the last rating row
  of a restaurant changes the ratings table only; and after an update that moves the last
  rating row of a restaurant to another restaurant, the rating field of the restaurant it
  left is the one it had.
\<close>

theorem rating_kept_when_no_rows_remain:
  "(ratings_of p d = [] \<longrightarrow> recalculate_restaurant_rating p d = Inr d)
   \<and> (find (\<lambda>r. rr_id r = rid) (restaurant_ratings d) = Some old
        \<and> ratings_of (rr_restaurant_id old) (without_rating rid d) = []
      \<longrightarrow> delete_restaurant_rating rid d = Inr (without_rating rid d))
   \<and> (find (\<lambda>r. rr_id r = rid) (restaurant_ratings d) = Some old
        \<and> update_restaurant_rating rid row d = Inr d'
        \<and> rr_restaurant_id row \<noteq> rr_restaurant_id old
        \<and> ratings_of (rr_restaurant_id old) d' = []
      \<longrightarrow> rating_field (rr_restaurant_id old) d' = rating_field (rr_restaurant_id old) d)"
proof (intro conjI impI)
  assume "ratings_of p d = []"
  then show "recalculate_restaurant_rating p d = Inr d" by (rule recalculate_no_rows)
next
  assume "find (\<lambda>r. rr_id r = rid) (restaurant_ratings d) = Some old
        \<and> ratings_of (rr_restaurant_id old) (without_rating rid d) = []"
  then show "delete_restaurant_rating rid d = Inr (without_rating rid d)"
    by (simp add: delete_restaurant_rating_def handle_restaurant_rating_change_def
        recalculate_no_rows without_rating_def)
next
  assume "find (\<lambda>r. rr_id r = rid) (restaurant_ratings d) = Some old
        \<and> update_restaurant_rating rid row d = Inr d'
        \<and> rr_restaurant_id row \<noteq> rr_restaurant_id old
        \<and> ratings_of (rr_restaurant_id old) d' = []"
  then show "rating_field (rr_restaurant_id old) d' = rating_field (rr_restaurant_id old) d"
    using update_moved_keeps_old by blast
qed

theorem rating_kept_when_no_rows_remain_witness:
  "ratings_of 3 one_rating_db = []
   \<and> recalculate_restaurant_rating 3 one_rating_db = Inr one_rating_db
   \<and> delete_restaurant_rating 1 one_rating_db = Inr (without_rating 1 one_rating_db)
   \<and> rating_field 1 (without_rating 1 one_rating_db) = Some (Some 4)
   \<and> update_restaurant_rating 1
        \<lparr>rr_id = 1, rr_restaurant_id = 2, rr_customer_id = 7, rr_order_id = None, rr_rating = 3\<rparr>
        one_rating_db
      = Inr (one_rating_db\<lparr>
          restaurants := [\<lparr>r_id = 1, r_name = Some ''Yangon Bistro'', r_rating = Some 4\<rparr>,
                          \<lparr>r_id = 2, r_name = Some ''Tokyo Bowl'', r_rating = Some 3\<rparr>,
                          \<lparr>r_id = 3, r_name = None, r_rating = Some (9 / 2)\<rparr>],
          restaurant_ratings := [\<lparr>rr_id = 1, rr_restaurant_id = 2, rr_customer_id = 7,
                                  rr_order_id = None, rr_rating = 3\<rparr>]\<rparr>)
   \<and> rating_field 1 (one_rating_db\<lparr>
          restaurants := [\<lparr>r_id = 1, r_name = Some ''Yangon Bistro'', r_rating = Some 4\<rparr>,
                          \<lparr>r_id = 2, r_name = Some ''Tokyo Bowl'', r_rating = Some 3\<rparr>,
                          \<lparr>r_id = 3, r_name = None, r_rating = Some (9 / 2)\<rparr>],
          restaurant_ratings := [\<lparr>rr_id = 1, rr_restaurant_id = 2, rr_customer_id = 7,
                                  rr_order_id = None, rr_rating = 3\<rparr>]\<rparr>) = Some (Some 4)"
proof -
  let ?old = "\<lparr>rr_id = 1, rr_restaurant_id = 1, rr_customer_id = 7, rr_order_id = None, rr_rating = 4\<rparr>"
  let ?row = "\<lparr>rr_id = 1, rr_restaurant_id = 2, rr_customer_id = 7, rr_order_id = None, rr_rating = 3\<rparr>"
  let ?d' = "one_rating_db\<lparr>
          restaurants := [\<lparr>r_id = 1, r_name = Some ''Yangon Bistro'', r_rating = Some 4\<rparr>,
                          \<lparr>r_id = 2, r_name = Some ''Tokyo Bowl'', r_rating = Some 3\<rparr>,
                          \<lparr>r_id = 3, r_name = None, r_rating = Some (9 / 2)\<rparr>],
          restaurant_ratings := [?row]\<rparr>"
  have h1: "ratings_of 3 one_rating_db = []" by code_simp
  have h2: "find (\<lambda>r. rr_id r = 1) (restaurant_ratings one_rating_db) = Some ?old" by code_simp
  have h3: "ratings_of (rr_restaurant_id ?old) (without_rating 1 one_rating_db) = []" by code_simp
  have h4: "update_restaurant_rating 1 ?row one_rating_db = Inr ?d'" by code_simp
  have h5: "rr_restaurant_id ?row \<noteq> rr_restaurant_id ?old" by simp
  have h6: "ratings_of (rr_restaurant_id ?old) ?d' = []" by code_simp
  have h7: "rating_field 1 one_rating_db = Some (Some 4)" by code_simp
  have h8: "rating_field 1 (without_rating 1 one_rating_db) = Some (Some 4)" by code_simp
  from rating_kept_when_no_rows_remain [of 3 one_rating_db 1 ?old ?row ?d'] h1 h2 h3 h4 h5 h6 h7 h8
  show ?thesis by simp
qed

section \<open>Ratings table: values and uniqueness\<close>

lemma recalculate_keeps_ratings:
  "recalculate_restaurant_rating p d = Inr d' \<Longrightarrow> restaurant_ratings d' = restaurant_ratings d"
  by (auto simp: recalculate_restaurant_rating_def set_restaurant_rating_def
      split: option.splits sum.splits)

lemma trigger_keeps_ratings:
  "handle_restaurant_rating_change ev d = Inr d' \<Longrightarrow> restaurant_ratings d' = restaurant_ratings d"
  by (cases ev)
     (auto simp: handle_restaurant_rating_change_def split: if_splits sum.splits
        dest!: recalculate_keeps_ratings)

lemma check_restaurant_rating_Inr:
  assumes "check_restaurant_rating row others d = Inr new"
  shows "rating_value_ok (rr_rating new)"
    and "rr_id new = rr_id row"
    and "rating_key new = rating_key row"
    and "rr_id new \<notin> rr_id ` set others"
    and "has_order new \<Longrightarrow> rating_key new \<notin> rating_key ` set (filter has_order others)"
proof -
  from assms obtain v where v: "cast_numeric 2 1 (rr_rating row) = Inr v"
    and range: "1 \<le> v" "v \<le> 5"
    and pk: "\<not> list_ex (\<lambda>r. rr_id r = rr_id row) others"
    and uq: "\<not> list_ex (same_rating_key row) others"
    and new: "new = row\<lparr>rr_rating := v\<rparr>"
    by (auto simp: check_restaurant_rating_def split: sum.splits if_splits)
  from v have "v = numeric_round (rr_rating row) 1" by (rule cast_numeric_Inr)
  then have "numeric_round v 1 = v" by (simp add: numeric_round_idem)
  with range new show "rating_value_ok (rr_rating new)" by (simp add: rating_value_ok_def)
  from new show "rr_id new = rr_id row" by simp
  from new show "rating_key new = rating_key row" by (simp add: rating_key_def)
  from pk new show "rr_id new \<notin> rr_id ` set others" by (auto simp: list_ex_iff)
  show "rating_key new \<notin> rating_key ` set (filter has_order others)" if "has_order new"
  proof
    assume "rating_key new \<in> rating_key ` set (filter has_order others)"
    then obtain r where r: "r \<in> set others" "has_order r" "rating_key r = rating_key new" by auto
    with that new have "same_rating_key row r"
      by (auto simp: same_rating_key_def rating_key_def has_order_def split: option.splits)
    with uq r show False by (auto simp: list_ex_iff)
  qed
qed

lemma at_most_one_per_key:
  "distinct (map f xs) \<Longrightarrow> length (filter (\<lambda>x. f x = k) xs) \<le> 1"
proof (induction xs)
  case Nil
  then show ?case by simp
next
  case (Cons x xs)
  show ?case
  proof (cases "f x = k")
    case True
    with Cons.prems have "\<forall>y \<in> set xs. f y \<noteq> k"
      by (auto simp: image_iff)
    then have "filter (\<lambda>y. f y = k) xs = []"
      by (simp add: filter_empty_conv)
    with True show ?thesis by simp
  next
    case False
    with Cons show ?thesis by simp
  qed
qed

lemma rows_for_triple_with_order:
  "rows_for_triple r c (Some oid) rows
   = filter (\<lambda>x. rating_key x = (r, c, Some oid)) (filter has_order rows)"
  by (induction rows) (auto simp: rows_for_triple_def rating_key_def has_order_def)

lemma table_ok_at_most_one:
  assumes "ratings_table_ok rows"
  shows "length (rows_for_triple r c (Some oid) rows) \<le> 1"
proof -
  from assms have "distinct (map rating_key (filter has_order rows))"
    by (simp add: ratings_table_ok_def)
  then have "length (filter (\<lambda>x. rating_key x = (r, c, Some oid)) (filter has_order rows)) \<le> 1"
    by (rule at_most_one_per_key)
  then show ?thesis by (simp only: rows_for_triple_with_order)
qed

lemma table_ok_append:
  assumes "ratings_table_ok rows" and "check_restaurant_rating row rows d = Inr new"
  shows "ratings_table_ok (rows @ [new])"
  using assms check_restaurant_rating_Inr [OF assms(2)]
  by (auto simp: ratings_table_ok_def)

lemma table_ok_filter:
  assumes "ratings_table_ok rows"
  shows "ratings_table_ok (filter P rows)"
proof -
  have swap: "filter has_order (filter P rows) = filter P (filter has_order rows)"
    by (induction rows) auto
  from assms have "distinct (map rating_key (filter has_order rows))"
    by (simp add: ratings_table_ok_def)
  then have "distinct (map rating_key (filter P (filter has_order rows)))"
    by (rule distinct_map_filter)
  then have keys: "distinct (map rating_key (filter has_order (filter P rows)))"
    by (simp only: swap)
  from assms have "list_all (\<lambda>r. rating_value_ok (rr_rating r)) (filter P rows)"
    and "distinct (map rr_id (filter P rows))"
    by (auto simp: ratings_table_ok_def list_all_iff distinct_map_filter)
  with keys show ?thesis unfolding ratings_table_ok_def by blast
qed

lemma split_at_key:
  assumes "distinct (map rr_id rows)" and "find (\<lambda>r. rr_id r = rid) rows = Some old"
  shows "\<exists>xs ys. rows = xs @ old # ys \<and> rr_id old = rid
           \<and> (\<forall>r \<in> set xs \<union> set ys. rr_id r \<noteq> rid)"
proof -
  from assms(2) obtain i where i: "i < length rows" "rows ! i = old" "rr_id old = rid"
    by (auto simp: find_Some_iff)
  then have rows: "rows = take i rows @ old # drop (Suc i) rows"
    by (metis id_take_nth_drop)
  with assms(1) have "distinct (map rr_id (take i rows @ old # drop (Suc i) rows))" by simp
  with i have "\<forall>r \<in> set (take i rows) \<union> set (drop (Suc i) rows). rr_id r \<noteq> rid"
    by (force simp: image_iff)
  with rows i show ?thesis by blast
qed

lemma table_ok_replace:
  assumes ok: "ratings_table_ok rows"
    and old: "find (\<lambda>r. rr_id r = rid) rows = Some old"
    and chk: "check_restaurant_rating row (filter (\<lambda>r. rr_id r \<noteq> rid) rows) d = Inr new"
  shows "ratings_table_ok (map (\<lambda>r. if rr_id r = rid then new else r) rows)"
proof -
  from ok have "distinct (map rr_id rows)" by (simp add: ratings_table_ok_def)
  from split_at_key [OF this old] obtain xs ys where
    rows: "rows = xs @ old # ys" and rid: "rr_id old = rid"
    and others: "\<forall>r \<in> set xs \<union> set ys. rr_id r \<noteq> rid"
    by blast
  from others have fx: "filter (\<lambda>r. rr_id r \<noteq> rid) xs = xs"
    and fy: "filter (\<lambda>r. rr_id r \<noteq> rid) ys = ys"
    by (auto simp: filter_id_conv)
  from others have mx: "map (\<lambda>r. if rr_id r = rid then new else r) xs = xs"
    and my: "map (\<lambda>r. if rr_id r = rid then new else r) ys = ys"
    by (auto simp: map_idI)
  from rows rid fx fy have rest: "filter (\<lambda>r. rr_id r \<noteq> rid) rows = xs @ ys" by simp
  from rows rid mx my have repl: "map (\<lambda>r. if rr_id r = rid then new else r) rows = xs @ new # ys"
    by simp
  from ok have "ratings_table_ok (filter (\<lambda>r. rr_id r \<noteq> rid) rows)" by (rule table_ok_filter)
  with rest have ok': "ratings_table_ok (xs @ ys)" by simp
  from chk rest have chk': "check_restaurant_rating row (xs @ ys) d = Inr new" by simp
  from ok' check_restaurant_rating_Inr [OF chk'] have "ratings_table_ok (xs @ new # ys)"
    by (auto simp: ratings_table_ok_def)
  with repl show ?thesis by simp
qed

text \<open>
  Claim C8, as stated, at the triple with a null order: restaurant 1 already has a rating by
  customer 7 with no order, in a well-formed table; a second rating by customer 7 with no
  order is accepted, and the triple (1, 7, null) then has two rows.
\<close>

theorem two_ratings_without_order:
  "ratings_table_ok (restaurant_ratings one_rating_db)
   \<and> length (rows_for_triple 1 7 None (restaurant_ratings one_rating_db)) = 1
   \<and> (case insert_restaurant_rating orderless_rating one_rating_db of
         Inl e \<Rightarrow> 0
       | Inr d \<Rightarrow> length (rows_for_triple 1 7 None (restaurant_ratings d))) = 2"
  by code_simp

text \<open>
  Claim C8, amended. Every rating row stores a value between 1 and 5 inclusive at
  one-decimal granularity, and for every (restaurant, customer, order) triple with a
  non-null order there is at most one rating row: the empty table is well-formed, and when
  the table is well-formed before an insert, an update or a delete of a rating row that
  succeeds, it is well-formed after it. Rows with a null order are not limited.
\<close>

theorem ratings_table_stays_well_formed:
  "ratings_table_ok []
   \<and> (ratings_table_ok (restaurant_ratings d)
        \<and> (insert_restaurant_rating row d = Inr d'
            \<or> update_restaurant_rating rid row d = Inr d'
            \<or> delete_restaurant_rating rid d = Inr d')
      \<longrightarrow> ratings_table_ok (restaurant_ratings d')
          \<and> list_all (\<lambda>x. 1 \<le> rr_rating x \<and> rr_rating x \<le> 5
                          \<and> numeric_round (rr_rating x) 1 = rr_rating x)
               (restaurant_ratings d')
          \<and> length (rows_for_triple r c (Some oid) (restaurant_ratings d')) \<le> 1)"
  (is "_ \<and> (?before \<longrightarrow> ?after)")
proof (rule conjI)
  show "ratings_table_ok []" by (simp add: ratings_table_ok_def)
next
  show "?before \<longrightarrow> ?after"
  proof (rule impI)
    assume h: "ratings_table_ok (restaurant_ratings d)
          \<and> (insert_restaurant_rating row d = Inr d'
              \<or> update_restaurant_rating rid row d = Inr d'
              \<or> delete_restaurant_rating rid d = Inr d')"
    then have ok: "ratings_table_ok (restaurant_ratings d)" by simp
    from h consider
        (ins) "insert_restaurant_rating row d = Inr d'"
      | (upd) "update_restaurant_rating rid row d = Inr d'"
      | (del) "delete_restaurant_rating rid d = Inr d'"
      by blast
    then have ok': "ratings_table_ok (restaurant_ratings d')"
    proof cases
      case ins
      then obtain new where chk: "check_restaurant_rating row (restaurant_ratings d) d = Inr new"
        and trg: "handle_restaurant_rating_change (INSERT new)
                    (d\<lparr>restaurant_ratings := restaurant_ratings d @ [new]\<rparr>) = Inr d'"
        by (auto simp: insert_restaurant_rating_def split: sum.splits)
      from trg have "restaurant_ratings d' = restaurant_ratings d @ [new]"
        by (auto dest: trigger_keeps_ratings)
      with ok chk show ?thesis by (simp add: table_ok_append)
    next
      case upd
      show ?thesis
      proof (cases "find (\<lambda>r. rr_id r = rid) (restaurant_ratings d)")
        case None
        with upd have "d' = d" by (simp add: update_restaurant_rating_def)
        with ok show ?thesis by simp
      next
        case (Some old)
        with upd obtain new where
          chk: "check_restaurant_rating row
                  (filter (\<lambda>r. rr_id r \<noteq> rid) (restaurant_ratings d)) d = Inr new"
          and trg: "handle_restaurant_rating_change (UPDATE old new)
                      (d\<lparr>restaurant_ratings :=
                           map (\<lambda>r. if rr_id r = rid then new else r) (restaurant_ratings d)\<rparr>)
                    = Inr d'"
          by (auto simp: update_restaurant_rating_def split: sum.splits)
        from trg have "restaurant_ratings d'
            = map (\<lambda>r. if rr_id r = rid then new else r) (restaurant_ratings d)"
          by (auto dest: trigger_keeps_ratings)
        with ok Some chk show ?thesis by (simp add: table_ok_replace)
      qed
    next
      case del
      show ?thesis
      proof (cases "find (\<lambda>r. rr_id r = rid) (restaurant_ratings d)")
        case None
        with del have "d' = d" by (simp add: delete_restaurant_rating_def)
        with ok show ?thesis by simp
      next
        case (Some old)
        with del have "handle_restaurant_rating_change (DELETE old)
            (d\<lparr>restaurant_ratings := filter (\<lambda>r. rr_id r \<noteq> rid) (restaurant_ratings d)\<rparr>)
            = Inr d'"
          by (simp add: delete_restaurant_rating_def)
        then have "restaurant_ratings d' = filter (\<lambda>r. rr_id r \<noteq> rid) (restaurant_ratings d)"
          by (auto dest: trigger_keeps_ratings)
        with ok show ?thesis by (simp add: table_ok_filter)
      qed
    qed
    from ok' have vals: "list_all (\<lambda>x. 1 \<le> rr_rating x \<and> rr_rating x \<le> 5
                            \<and> numeric_round (rr_rating x) 1 = rr_rating x)
                 (restaurant_ratings d')"
      by (simp add: ratings_table_ok_def rating_value_ok_def)
    from ok' have "length (rows_for_triple r c (Some oid) (restaurant_ratings d')) \<le> 1"
      by (rule table_ok_at_most_one)
    with ok' vals show ?after by blast
  qed
qed

theorem ratings_table_stays_well_formed_witness:
  "(ratings_table_ok (restaurant_ratings order_db)
      \<and> insert_restaurant_rating order_rating order_db = Inr rated_order_db)
   \<and> ratings_table_ok (restaurant_ratings rated_order_db)
   \<and> map rr_rating (restaurant_ratings rated_order_db) = [4, 5]
   \<and> length (rows_for_triple 1 7 (Some 6) (restaurant_ratings rated_order_db)) \<le> 1
   \<and> insert_restaurant_rating (order_rating\<lparr>rr_id := 3\<rparr>) rated_order_db = Inl Unique_violation
   \<and> insert_restaurant_rating (order_rating\<lparr>rr_id := 3, rr_rating := 11 / 2\<rparr>) order_db
       = Inl Check_violation"
proof -
  have h: "ratings_table_ok (restaurant_ratings order_db)
      \<and> insert_restaurant_rating order_rating order_db = Inr rated_order_db"
    by code_simp
  have v: "map rr_rating (restaurant_ratings rated_order_db) = [4, 5]
      \<and> insert_restaurant_rating (order_rating\<lparr>rr_id := 3\<rparr>) rated_order_db = Inl Unique_violation
      \<and> insert_restaurant_rating (order_rating\<lparr>rr_id := 3, rr_rating := 11 / 2\<rparr>) order_db
          = Inl Check_violation"
    by code_simp
  from ratings_table_stays_well_formed [of order_db order_rating rated_order_db 0 1 7 6] h
  have "ratings_table_ok (restaurant_ratings rated_order_db)
      \<and> length (rows_for_triple 1 7 (Some 6) (restaurant_ratings rated_order_db)) \<le> 1"
    by blast
  with h v show ?thesis by blast
qed

section \<open>Order-completion rating prompt\<close>

lemma existing_rating_id_None:
  "existing_rating_id r c oid d = None
   \<longleftrightarrow> \<not> list_ex (rates_order r c oid) (restaurant_ratings d)"
  by (auto simp: existing_rating_id_def find_None_iff list_ex_iff)

text \<open>
  Claim C2, as stated, at an order without a customer: the order of restaurant 1 goes from
  paid to completed and no rating row exists at all, so the three conditions of the claim
  hold, and the trigger inserts no notification.
\<close>

theorem null_customer_completed_without_prompt:
  "o_status (guest_order ''completed'') = Some ''completed''
   \<and> o_status (guest_order ''paid'') \<noteq> o_status (guest_order ''completed'')
   \<and> restaurant_ratings guest_order_db = []
   \<and> customer_notifications
        (handle_order_status_rating_prompt
           (UPDATE (guest_order ''paid'') (guest_order ''completed'')) guest_order_db)
      = customer_notifications guest_order_db"
  by code_simp

text \<open>
  Claim C2, amended. For an updated order whose customer and restaurant are not null:
  when the new status is completed or served, the old status is distinct from it and no
  rating row has this restaurant, customer and order, the trigger appends exactly one
  customer notification, with the fixed title and message, unread, for this customer and
  order, and changes nothing else; when such a rating row exists it changes nothing.
  Whatever the customer and restaurant are, an update that keeps the status and an update to
  a status other than completed and served change nothing.
\<close>

theorem rating_prompt_on_completion:
  "(o_customer_id new = Some c \<and> o_restaurant_id new = Some r
      \<and> (o_status new = Some ''completed'' \<or> o_status new = Some ''served'')
      \<and> o_status old \<noteq> o_status new
      \<and> \<not> list_ex (rates_order r c (o_id new)) (restaurant_ratings d)
     \<longrightarrow> handle_order_status_rating_prompt (UPDATE old new) d
         = d\<lparr>customer_notifications := customer_notifications d @
               [\<lparr>cn_customer_id = c,
                 cn_order_id = Some (o_id new),
                 cn_title = ''Your order is completed'',
                 cn_message = ''Your order is completed and it will be served in a short while. Please give us rating for our service.'',
                 cn_status = ''unread'',
                 cn_blog_post_id = None,
                 cn_reply_content = None,
                 cn_restaurant_name = None\<rparr>]\<rparr>)
   \<and> (o_customer_id new = Some c \<and> o_restaurant_id new = Some r
      \<and> list_ex (rates_order r c (o_id new)) (restaurant_ratings d)
     \<longrightarrow> handle_order_status_rating_prompt (UPDATE old new) d = d)
   \<and> (o_status old = o_status new
     \<longrightarrow> handle_order_status_rating_prompt (UPDATE old new) d = d)
   \<and> (o_status new \<noteq> Some ''completed'' \<and> o_status new \<noteq> Some ''served''
     \<longrightarrow> handle_order_status_rating_prompt (UPDATE old new) d = d)"
proof (intro conjI impI)
  assume a: "o_customer_id new = Some c \<and> o_restaurant_id new = Some r
      \<and> (o_status new = Some ''completed'' \<or> o_status new = Some ''served'')
      \<and> o_status old \<noteq> o_status new
      \<and> \<not> list_ex (rates_order r c (o_id new)) (restaurant_ratings d)"
  then have "existing_rating_id r c (o_id new) d = None"
    by (simp add: existing_rating_id_None)
  with a show "handle_order_status_rating_prompt (UPDATE old new) d
         = d\<lparr>customer_notifications := customer_notifications d @
               [\<lparr>cn_customer_id = c,
                 cn_order_id = Some (o_id new),
                 cn_title = ''Your order is completed'',
                 cn_message = ''Your order is completed and it will be served in a short while. Please give us rating for our service.'',
                 cn_status = ''unread'',
                 cn_blog_post_id = None,
                 cn_reply_content = None,
                 cn_restaurant_name = None\<rparr>]\<rparr>"
    by (auto simp: handle_order_status_rating_prompt_def insert_customer_notification_def
        rating_prompt_def)
next
  assume a: "o_customer_id new = Some c \<and> o_restaurant_id new = Some r
      \<and> list_ex (rates_order r c (o_id new)) (restaurant_ratings d)"
  then have "existing_rating_id r c (o_id new) d \<noteq> None"
    by (simp add: existing_rating_id_None)
  with a show "handle_order_status_rating_prompt (UPDATE old new) d = d"
    by (auto simp: handle_order_status_rating_prompt_def split: option.splits)
next
  assume "o_status old = o_status new"
  then show "handle_order_status_rating_prompt (UPDATE old new) d = d"
    by (simp add: handle_order_status_rating_prompt_def split: option.splits)
next
  assume "o_status new \<noteq> Some ''completed'' \<and> o_status new \<noteq> Some ''served''"
  then show "handle_order_status_rating_prompt (UPDATE old new) d = d"
    by (simp add: handle_order_status_rating_prompt_def split: option.splits)
qed

theorem rating_prompt_on_completion_witness:
  "handle_order_status_rating_prompt
     (UPDATE (customer_order ''preparing'') (customer_order ''completed'')) one_rating_db
   = one_rating_db\<lparr>customer_notifications :=
       [\<lparr>cn_customer_id = 7,
         cn_order_id = Some 6,
         cn_title = ''Your order is completed'',
         cn_message = ''Your order is completed and it will be served in a short while. Please give us rating for our service.'',
         cn_status = ''unread'',
         cn_blog_post_id = None,
         cn_reply_content = None,
         cn_restaurant_name = None\<rparr>]\<rparr>
   \<and> handle_order_status_rating_prompt
       (UPDATE (customer_order ''preparing'') (customer_order ''completed''))
       (one_rating_db\<lparr>restaurant_ratings :=
          [\<lparr>rr_id = 1, rr_restaurant_id = 1, rr_customer_id = 7, rr_order_id = Some 6,
            rr_rating = 4\<rparr>]\<rparr>)
     = one_rating_db\<lparr>restaurant_ratings :=
          [\<lparr>rr_id = 1, rr_restaurant_id = 1, rr_customer_id = 7, rr_order_id = Some 6,
            rr_rating = 4\<rparr>]\<rparr>
   \<and> handle_order_status_rating_prompt
       (UPDATE (customer_order ''completed'') (customer_order ''completed'')) one_rating_db
     = one_rating_db
   \<and> handle_order_status_rating_prompt
       (UPDATE (customer_order ''paid'') (customer_order ''preparing'')) one_rating_db
     = one_rating_db"
proof -
  let ?rated = "one_rating_db\<lparr>restaurant_ratings :=
          [\<lparr>rr_id = 1, rr_restaurant_id = 1, rr_customer_id = 7, rr_order_id = Some 6,
            rr_rating = 4\<rparr>]\<rparr>"
  have h1: "o_customer_id (customer_order ''completed'') = Some 7
      \<and> o_restaurant_id (customer_order ''completed'') = Some 1
      \<and> (o_status (customer_order ''completed'') = Some ''completed''
          \<or> o_status (customer_order ''completed'') = Some ''served'')
      \<and> o_status (customer_order ''preparing'') \<noteq> o_status (customer_order ''completed'')
      \<and> \<not> list_ex (rates_order 1 7 (o_id (customer_order ''completed'')))
              (restaurant_ratings one_rating_db)"
    by code_simp
  have h2: "o_customer_id (customer_order ''completed'') = Some 7
      \<and> o_restaurant_id (customer_order ''completed'') = Some 1
      \<and> list_ex (rates_order 1 7 (o_id (customer_order ''completed''))) (restaurant_ratings ?rated)"
    by code_simp
  have h3: "o_status (customer_order ''completed'') = o_status (customer_order ''completed'')"
    by simp
  have h4: "o_status (customer_order ''preparing'') \<noteq> Some ''completed''
      \<and> o_status (customer_order ''preparing'') \<noteq> Some ''served''"
    by code_simp
  have h5: "customer_notifications one_rating_db = [] \<and> o_id (customer_order ''completed'') = 6"
    by code_simp
  from rating_prompt_on_completion
         [of "customer_order ''completed''" 7 1 "customer_order ''preparing''" one_rating_db]
       rating_prompt_on_completion
         [of "customer_order ''completed''" 7 1 "customer_order ''preparing''" ?rated]
       rating_prompt_on_completion
         [of "customer_order ''completed''" 7 1 "customer_order ''completed''" one_rating_db]
       rating_prompt_on_completion
         [of "customer_order ''preparing''" 7 1 "customer_order ''paid''" one_rating_db]
       h1 h2 h3 h4 h5
  show ?thesis by simp
qed

text \<open>
  Claim C9. When the updated order has a null customer or a null restaurant, the rating
  prompt trigger leaves the database as it is, whatever the old and the new status are.
\<close>

theorem no_prompt_without_customer_or_restaurant:
  "o_customer_id new = None \<or> o_restaurant_id new = None \<Longrightarrow>
   handle_order_status_rating_prompt (UPDATE old new) d = d"
  by (auto simp: handle_order_status_rating_prompt_def split: option.splits)

theorem no_prompt_without_customer_or_restaurant_witness:
  "o_customer_id (guest_order ''completed'') = None
   \<and> handle_order_status_rating_prompt
        (UPDATE (guest_order ''paid'') (guest_order ''completed'')) one_rating_db = one_rating_db"
proof -
  have h: "o_customer_id (guest_order ''completed'') = None
           \<or> o_restaurant_id (guest_order ''completed'') = None"
    by (simp add: guest_order_def)
  from no_prompt_without_customer_or_restaurant [OF h, of "guest_order ''paid''" one_rating_db]
  show ?thesis by (simp add: guest_order_def)
qed

section \<open>Reply notifications\<close>

lemma preview_in_message: "sublist p (a @ b @ p @ c)"
  using sublist_appendI [of p "a @ b" c] by simp

text \<open>
  Claim C3, as stated, at a reply of 101 characters: comment 21 replies to comment 20
  (whose author is customer 7) with 101 times the letter x. The one notification the
  handler inserts has a message that does not contain the first 100 characters of the
  reply followed by an ellipsis.
\<close>

theorem long_reply_preview_has_97_characters:
  "parent_author 20 long_reply_db = Some 7
   \<and> length (bc_content long_reply) = 101
   \<and> length (customer_notifications (handle_blog_comment_reply long_reply long_reply_db)) = 1
   \<and> \<not> sublist (spec_reply_preview (bc_content long_reply))
         (cn_message (last (customer_notifications
            (handle_blog_comment_reply long_reply long_reply_db))))"
  by code_simp

text \<open>
  Claim C3, amended. For an inserted reply whose parent comment has an author, the handler
  appends exactly one customer notification and changes nothing else: its recipient is the
  parent's author, its reply_content is the reply's content, it is unread and linked to the
  reply's post, and its message is the restaurant name (or Restaurant), the text
  \<open> replied: \<close> and, between double quotes, the whole content when it has at most 100
  characters and otherwise its first 97 characters followed by three dots; that preview is
  a part of the message.
\<close>

theorem reply_notification:
  \<open>bc_parent_comment_id new = Some parent \<and> parent_author parent d = Some author
   \<longrightarrow> handle_blog_comment_reply new d
       = d\<lparr>customer_notifications := customer_notifications d @
            [\<lparr>cn_customer_id = author,
              cn_order_id = None,
              cn_title = ''Comment Reply'',
              cn_message =
                coalesce (restaurant_name_of_post (bc_blog_post_id new) d) ''Restaurant''
                  @ '' replied: "''
                  @ (if 100 < length (bc_content new)
                     then take 97 (bc_content new) @ ''...'' else bc_content new)
                  @ ''"'',
              cn_status = ''unread'',
              cn_blog_post_id = Some (bc_blog_post_id new),
              cn_reply_content = Some (bc_content new),
              cn_restaurant_name = restaurant_name_of_post (bc_blog_post_id new) d\<rparr>]\<rparr>
     \<and> sublist (if 100 < length (bc_content new)
                 then take 97 (bc_content new) @ ''...'' else bc_content new)
          (cn_message (last (customer_notifications (handle_blog_comment_reply new d))))\<close>
proof (intro impI)
  assume h: \<open>bc_parent_comment_id new = Some parent \<and> parent_author parent d = Some author\<close>
  let ?p = \<open>if 100 < length (bc_content new)
            then take 97 (bc_content new) @ ''...'' else bc_content new\<close>
  let ?a = \<open>coalesce (restaurant_name_of_post (bc_blog_post_id new) d) ''Restaurant''\<close>
  let ?n = \<open>\<lparr>cn_customer_id = author,
              cn_order_id = None,
              cn_title = ''Comment Reply'',
              cn_message = ?a @ '' replied: "'' @ ?p @ ''"'',
              cn_status = ''unread'',
              cn_blog_post_id = Some (bc_blog_post_id new),
              cn_reply_content = Some (bc_content new),
              cn_restaurant_name = restaurant_name_of_post (bc_blog_post_id new) d\<rparr>\<close>
  from h have eq: \<open>handle_blog_comment_reply new d
      = d\<lparr>customer_notifications := customer_notifications d @ [?n]\<rparr>\<close>
    by (simp add: handle_blog_comment_reply_def insert_customer_notification_def
        content_preview_def Let_def)
  have msg: \<open>cn_message (last (customer_notifications (handle_blog_comment_reply new d)))
      = ?a @ '' replied: "'' @ ?p @ ''"''\<close>
    by (simp add: eq)
  have \<open>sublist ?p (cn_message (last (customer_notifications (handle_blog_comment_reply new d))))\<close>
    unfolding msg by (rule preview_in_message)
  with eq show \<open>handle_blog_comment_reply new d
       = d\<lparr>customer_notifications := customer_notifications d @ [?n]\<rparr>
     \<and> sublist ?p
          (cn_message (last (customer_notifications (handle_blog_comment_reply new d))))\<close>
    by (rule conjI)
qed

theorem reply_notification_witness:
  \<open>(bc_parent_comment_id long_reply = Some 20 \<and> parent_author 20 long_reply_db = Some 7)
   \<and> handle_blog_comment_reply long_reply long_reply_db
       = long_reply_db\<lparr>customer_notifications := customer_notifications long_reply_db @
            [\<lparr>cn_customer_id = 7,
              cn_order_id = None,
              cn_title = ''Comment Reply'',
              cn_message =
                coalesce (restaurant_name_of_post (bc_blog_post_id long_reply) long_reply_db)
                    ''Restaurant''
                  @ '' replied: "''
                  @ (if 100 < length (bc_content long_reply)
                     then take 97 (bc_content long_reply) @ ''...'' else bc_content long_reply)
                  @ ''"'',
              cn_status = ''unread'',
              cn_blog_post_id = Some (bc_blog_post_id long_reply),
              cn_reply_content = Some (bc_content long_reply),
              cn_restaurant_name =
                restaurant_name_of_post (bc_blog_post_id long_reply) long_reply_db\<rparr>]\<rparr>
   \<and> map cn_message (customer_notifications (handle_blog_comment_reply long_reply long_reply_db))
       = [''Yangon Bistro replied: "'' @ replicate 97 CHR ''x'' @ ''..."'']\<close>
proof -
  have h: \<open>bc_parent_comment_id long_reply = Some 20 \<and> parent_author 20 long_reply_db = Some 7\<close>
    by code_simp
  have v: \<open>map cn_message (customer_notifications (handle_blog_comment_reply long_reply long_reply_db))
       = [''Yangon Bistro replied: "'' @ replicate 97 CHR ''x'' @ ''..."'']\<close>
    by code_simp
  from reply_notification [of long_reply 20 long_reply_db 7] h v
  show ?thesis by blast
qed







section \<open>Owner notifications\<close>

lemma customer_display_name_cases:
  "customer_display_name c d =
     (if list_ex (\<lambda>u. u_id u = c) (users d)
      then (case stored_full_name c d of
              Some n \<Rightarrow> Some n
            | None \<Rightarrow> map_option (split_part_first CHR ''@'') (stored_email c d))
      else None)"
proof (cases "find (\<lambda>u. u_id u = c) (users d)")
  case None
  then have "\<not> list_ex (\<lambda>u. u_id u = c) (users d)"
    by (auto simp: find_None_iff list_ex_iff)
  with None show ?thesis by (simp add: customer_display_name_def)
next
  case (Some u)
  then have "u_id u = c" and "list_ex (\<lambda>u. u_id u = c) (users d)"
    by (auto simp: find_Some_iff list_ex_iff)
  with Some show ?thesis
    by (simp add: customer_display_name_def stored_full_name_def stored_email_def
        split: option.splits)
qed

lemma handle_blog_comment_notification_root:
  assumes "bc_parent_comment_id new = None"
    and "find_blog_post (bc_blog_post_id new) d = Some post"
  shows \<open>handle_blog_comment_notification new d =
     insert_blog_comment_notification
       \<lparr>bcn_restaurant_id = bp_restaurant_id post,
        bcn_customer_id = bc_customer_id new,
        bcn_blog_post_id = bc_blog_post_id new,
        bcn_comment_id = bc_id new,
        bcn_title = ''New Blog Comment'',
        bcn_message =
          coalesce (customer_display_name (bc_customer_id new) d) ''A customer''
            @ '' commented on your blog post "'' @ bp_title post @ ''": "''
            @ (if 100 < length (bc_content new)
               then take 97 (bc_content new) @ ''...'' else bc_content new)
            @ ''"'',
        bcn_status = ''unread'',
        bcn_comment_content = Some (bc_content new)\<rparr> d\<close>
  using assms
  by (simp add: handle_blog_comment_notification_def content_preview_def coalesce_def Let_def)

lemma insert_blog_comment_notification_ok:
  assumes "bcn_status n = ''unread''"
    and "\<not> list_ex (\<lambda>m. bcn_comment_id m = bcn_comment_id n) (blog_comment_notifications d)"
    and "notification_references_ok n d"
  shows "insert_blog_comment_notification n d
         = Inr (d\<lparr>blog_comment_notifications := blog_comment_notifications d @ [n]\<rparr>)"
  using assms by (simp add: insert_blog_comment_notification_def)

lemma insert_blog_comment_notification_Inr:
  assumes "insert_blog_comment_notification n d = Inr d'"
  shows "d' = d\<lparr>blog_comment_notifications := blog_comment_notifications d @ [n]\<rparr>"
  using assms by (auto simp: insert_blog_comment_notification_def split: if_splits)

lemma second_insert_rejected:
  assumes "bcn_comment_id m = bcn_comment_id n"
  shows "insert_blog_comment_notification m
           (d\<lparr>blog_comment_notifications := blog_comment_notifications d @ [n]\<rparr>)
         = (if bcn_status m = ''unread'' \<or> bcn_status m = ''read''
            then Inl Unique_violation else Inl Check_violation)"
  using assms by (simp add: insert_blog_comment_notification_def)

text \<open>
  Claim C4. For an inserted root comment on a published post, when the post's restaurant is
  stored, the commenter has a profile, the comment is in its table and no owner notification
  has its id yet, the handler appends exactly one owner notification and changes nothing
  else; the notification has the post's restaurant and the comment's id. In the database it
  returns, every insert of an owner notification with that comment id is rejected, by the
  uniqueness constraint whenever the row's status passes the check, and so is a second run
  of the handler for the comment.
\<close>

theorem owner_notification_created_once:
  \<open>bc_parent_comment_id new = None
   \<and> find_blog_post (bc_blog_post_id new) d = Some post \<and> bp_is_published post
   \<and> list_ex (\<lambda>r. r_id r = bp_restaurant_id post) (restaurants d)
   \<and> list_ex (\<lambda>p. p_id p = bc_customer_id new) (profiles d)
   \<and> list_ex (\<lambda>c. bc_id c = bc_id new) (blog_comments d)
   \<and> \<not> list_ex (\<lambda>m. bcn_comment_id m = bc_id new) (blog_comment_notifications d)
   \<longrightarrow> (\<exists>n. handle_blog_comment_notification new d
              = Inr (d\<lparr>blog_comment_notifications := blog_comment_notifications d @ [n]\<rparr>)
          \<and> bcn_restaurant_id n = bp_restaurant_id post
          \<and> bcn_comment_id n = bc_id new
          \<and> (\<forall>m. bcn_comment_id m = bc_id new \<longrightarrow>
                insert_blog_comment_notification m
                  (d\<lparr>blog_comment_notifications := blog_comment_notifications d @ [n]\<rparr>)
                = (if bcn_status m = ''unread'' \<or> bcn_status m = ''read''
                   then Inl Unique_violation else Inl Check_violation))
          \<and> handle_blog_comment_notification new
               (d\<lparr>blog_comment_notifications := blog_comment_notifications d @ [n]\<rparr>)
             = Inl Unique_violation)\<close>
proof (intro impI)
  assume h: \<open>bc_parent_comment_id new = None
   \<and> find_blog_post (bc_blog_post_id new) d = Some post \<and> bp_is_published post
   \<and> list_ex (\<lambda>r. r_id r = bp_restaurant_id post) (restaurants d)
   \<and> list_ex (\<lambda>p. p_id p = bc_customer_id new) (profiles d)
   \<and> list_ex (\<lambda>c. bc_id c = bc_id new) (blog_comments d)
   \<and> \<not> list_ex (\<lambda>m. bcn_comment_id m = bc_id new) (blog_comment_notifications d)\<close>
  let ?n = \<open>\<lparr>bcn_restaurant_id = bp_restaurant_id post,
        bcn_customer_id = bc_customer_id new,
        bcn_blog_post_id = bc_blog_post_id new,
        bcn_comment_id = bc_id new,
        bcn_title = ''New Blog Comment'',
        bcn_message =
          coalesce (customer_display_name (bc_customer_id new) d) ''A customer''
            @ '' commented on your blog post "'' @ bp_title post @ ''": "''
            @ (if 100 < length (bc_content new)
               then take 97 (bc_content new) @ ''...'' else bc_content new)
            @ ''"'',
        bcn_status = ''unread'',
        bcn_comment_content = Some (bc_content new)\<rparr>\<close>
  let ?d' = \<open>d\<lparr>blog_comment_notifications := blog_comment_notifications d @ [?n]\<rparr>\<close>
  from h have post: \<open>list_ex (\<lambda>bp. bp_id bp = bc_blog_post_id new) (blog_posts d)\<close>
    by (auto simp: find_blog_post_def find_Some_iff list_ex_iff)
  with h have refs: \<open>notification_references_ok ?n d\<close>
    by (simp add: notification_references_ok_def)
  from h have run: \<open>handle_blog_comment_notification new d = insert_blog_comment_notification ?n d\<close>
    by (simp add: handle_blog_comment_notification_root)
  from h refs have ins: \<open>insert_blog_comment_notification ?n d = Inr ?d'\<close>
    by (simp add: insert_blog_comment_notification_ok)
  have again: \<open>insert_blog_comment_notification m ?d'
       = (if bcn_status m = ''unread'' \<or> bcn_status m = ''read''
          then Inl Unique_violation else Inl Check_violation)\<close>
    if \<open>bcn_comment_id m = bc_id new\<close> for m
    using that second_insert_rejected [of m ?n d] by simp
  from h have \<open>find_blog_post (bc_blog_post_id new) ?d' = Some post\<close>
    by (simp add: find_blog_post_def)
  with h obtain n' where rerun: \<open>handle_blog_comment_notification new ?d'
      = insert_blog_comment_notification n' ?d'\<close>
    and n': \<open>bcn_comment_id n' = bc_id new\<close> \<open>bcn_status n' = ''unread''\<close>
    using handle_blog_comment_notification_root [of new ?d' post] by auto
  from rerun n' again [of n'] have twice: \<open>handle_blog_comment_notification new ?d' = Inl Unique_violation\<close>
    by simp
  from run ins again twice
  show \<open>\<exists>n. handle_blog_comment_notification new d
              = Inr (d\<lparr>blog_comment_notifications := blog_comment_notifications d @ [n]\<rparr>)
          \<and> bcn_restaurant_id n = bp_restaurant_id post
          \<and> bcn_comment_id n = bc_id new
          \<and> (\<forall>m. bcn_comment_id m = bc_id new \<longrightarrow>
                insert_blog_comment_notification m
                  (d\<lparr>blog_comment_notifications := blog_comment_notifications d @ [n]\<rparr>)
                = (if bcn_status m = ''unread'' \<or> bcn_status m = ''read''
                   then Inl Unique_violation else Inl Check_violation))
          \<and> handle_blog_comment_notification new
               (d\<lparr>blog_comment_notifications := blog_comment_notifications d @ [n]\<rparr>)
             = Inl Unique_violation\<close>
    by (intro exI [of _ ?n]) simp
qed

theorem owner_notification_created_once_witness:
  \<open>(bc_parent_comment_id hello_comment = None
     \<and> find_blog_post (bc_blog_post_id hello_comment) hello_db
         = Some \<lparr>bp_id = 10, bp_restaurant_id = 1, bp_title = ''New menu'', bp_is_published = True\<rparr>
     \<and> bp_is_published
          \<lparr>bp_id = 10, bp_restaurant_id = 1, bp_title = ''New menu'', bp_is_published = True\<rparr>
     \<and> list_ex (\<lambda>r. r_id r = bp_restaurant_id
          \<lparr>bp_id = 10, bp_restaurant_id = 1, bp_title = ''New menu'', bp_is_published = True\<rparr>)
          (restaurants hello_db)
     \<and> list_ex (\<lambda>p. p_id p = bc_customer_id hello_comment) (profiles hello_db)
     \<and> list_ex (\<lambda>c. bc_id c = bc_id hello_comment) (blog_comments hello_db)
     \<and> \<not> list_ex (\<lambda>m. bcn_comment_id m = bc_id hello_comment)
            (blog_comment_notifications hello_db))
   \<and> handle_blog_comment_notification hello_comment hello_db
      = Inr (hello_db\<lparr>blog_comment_notifications :=
          [\<lparr>bcn_restaurant_id = 1,
            bcn_customer_id = 7,
            bcn_blog_post_id = 10,
            bcn_comment_id = 22,
            bcn_title = ''New Blog Comment'',
            bcn_message = ''Mya commented on your blog post "New menu": "Hello"'',
            bcn_status = ''unread'',
            bcn_comment_content = Some ''Hello''\<rparr>]\<rparr>)
   \<and> handle_blog_comment_notification hello_comment
        (hello_db\<lparr>blog_comment_notifications :=
          [\<lparr>bcn_restaurant_id = 1,
            bcn_customer_id = 7,
            bcn_blog_post_id = 10,
            bcn_comment_id = 22,
            bcn_title = ''New Blog Comment'',
            bcn_message = ''Mya commented on your blog post "New menu": "Hello"'',
            bcn_status = ''unread'',
            bcn_comment_content = Some ''Hello''\<rparr>]\<rparr>)
      = Inl Unique_violation\<close>
proof -
  let ?post = \<open>\<lparr>bp_id = 10, bp_restaurant_id = 1, bp_title = ''New menu'', bp_is_published = True\<rparr>\<close>
  let ?N = \<open>\<lparr>bcn_restaurant_id = 1,
            bcn_customer_id = 7,
            bcn_blog_post_id = 10,
            bcn_comment_id = 22,
            bcn_title = ''New Blog Comment'',
            bcn_message = ''Mya commented on your blog post "New menu": "Hello"'',
            bcn_status = ''unread'',
            bcn_comment_content = Some ''Hello''\<rparr>\<close>
  have h: \<open>bc_parent_comment_id hello_comment = None
     \<and> find_blog_post (bc_blog_post_id hello_comment) hello_db = Some ?post
     \<and> bp_is_published ?post
     \<and> list_ex (\<lambda>r. r_id r = bp_restaurant_id ?post) (restaurants hello_db)
     \<and> list_ex (\<lambda>p. p_id p = bc_customer_id hello_comment) (profiles hello_db)
     \<and> list_ex (\<lambda>c. bc_id c = bc_id hello_comment) (blog_comments hello_db)
     \<and> \<not> list_ex (\<lambda>m. bcn_comment_id m = bc_id hello_comment)
            (blog_comment_notifications hello_db)\<close>
    by code_simp
  have v: \<open>handle_blog_comment_notification hello_comment hello_db
      = Inr (hello_db\<lparr>blog_comment_notifications := [?N]\<rparr>)\<close>
    by code_simp
  from owner_notification_created_once [of hello_comment hello_db ?post] h
  obtain n where
    a: \<open>handle_blog_comment_notification hello_comment hello_db
        = Inr (hello_db\<lparr>blog_comment_notifications := blog_comment_notifications hello_db @ [n]\<rparr>)\<close>
    and b: \<open>handle_blog_comment_notification hello_comment
          (hello_db\<lparr>blog_comment_notifications := blog_comment_notifications hello_db @ [n]\<rparr>)
        = Inl Unique_violation\<close>
    by blast
  from a v have \<open>hello_db\<lparr>blog_comment_notifications := blog_comment_notifications hello_db @ [n]\<rparr>
      = hello_db\<lparr>blog_comment_notifications := [?N]\<rparr>\<close>
    by simp
  with b have \<open>handle_blog_comment_notification hello_comment
        (hello_db\<lparr>blog_comment_notifications := [?N]\<rparr>) = Inl Unique_violation\<close>
    by simp
  with h v show ?thesis by blast
qed

text \<open>
  Claim C7, as stated, at a customer with neither a profile name nor an email: customer 8
  writes the root comment 27 on post 10. The specification's rule names no display name for
  this customer, and the owner notification that is produced starts with the words
  A customer.
\<close>

theorem nameless_customer_is_called_a_customer:
  \<open>spec_customer_display_name (stored_full_name (bc_customer_id nameless_comment) nameless_db)
       (stored_email (bc_customer_id nameless_comment) nameless_db) = None
   \<and> (case handle_blog_comment_notification nameless_comment nameless_db of
         Inl e \<Rightarrow> []
       | Inr d \<Rightarrow> map bcn_message (blog_comment_notifications d))
      = [''A customer commented on your blog post "New menu": "Hello"'']\<close>
  by code_simp

text \<open>
  Claim C7, amended. For every root comment that produces an owner notification, the message
  is the customer's display name, the text \<open> commented on your blog post \<close>, the post
  title between double quotes, a colon, and between double quotes the comment text, whole
  when it has at most 100 characters and otherwise its first 97 characters followed by three
  dots. The display name is the stored profile full name when the user has one, otherwise
  the part of the user's email before the at sign when the user has an email, and otherwise
  (no user row, or neither a full name nor an email) the words A customer.
\<close>

theorem owner_notification_message:
  \<open>(bc_parent_comment_id new = None \<and> find_blog_post (bc_blog_post_id new) d = Some post
      \<and> handle_blog_comment_notification new d = Inr d'
     \<longrightarrow> map bcn_message (blog_comment_notifications d')
         = map bcn_message (blog_comment_notifications d) @
           [coalesce (customer_display_name (bc_customer_id new) d) ''A customer''
              @ '' commented on your blog post "'' @ bp_title post @ ''": "''
              @ (if 100 < length (bc_content new)
                 then take 97 (bc_content new) @ ''...'' else bc_content new)
              @ ''"''])
   \<and> (list_ex (\<lambda>u. u_id u = c) (users d) \<and> stored_full_name c d = Some n
     \<longrightarrow> coalesce (customer_display_name c d) ''A customer'' = n)
   \<and> (list_ex (\<lambda>u. u_id u = c) (users d) \<and> stored_full_name c d = None
        \<and> stored_email c d = Some e
     \<longrightarrow> coalesce (customer_display_name c d) ''A customer''
         = takeWhile (\<lambda>x. x \<noteq> CHR ''@'') e)
   \<and> (\<not> list_ex (\<lambda>u. u_id u = c) (users d)
        \<or> (stored_full_name c d = None \<and> stored_email c d = None)
     \<longrightarrow> coalesce (customer_display_name c d) ''A customer'' = ''A customer'')\<close>
proof (intro conjI impI)
  assume h: \<open>bc_parent_comment_id new = None \<and> find_blog_post (bc_blog_post_id new) d = Some post
      \<and> handle_blog_comment_notification new d = Inr d'\<close>
  let ?n = \<open>\<lparr>bcn_restaurant_id = bp_restaurant_id post,
        bcn_customer_id = bc_customer_id new,
        bcn_blog_post_id = bc_blog_post_id new,
        bcn_comment_id = bc_id new,
        bcn_title = ''New Blog Comment'',
        bcn_message =
          coalesce (customer_display_name (bc_customer_id new) d) ''A customer''
            @ '' commented on your blog post "'' @ bp_title post @ ''": "''
            @ (if 100 < length (bc_content new)
               then take 97 (bc_content new) @ ''...'' else bc_content new)
            @ ''"'',
        bcn_status = ''unread'',
        bcn_comment_content = Some (bc_content new)\<rparr>\<close>
  from h have \<open>insert_blog_comment_notification ?n d = Inr d'\<close>
    using handle_blog_comment_notification_root [of new d post] by simp
  then have \<open>d' = d\<lparr>blog_comment_notifications := blog_comment_notifications d @ [?n]\<rparr>\<close>
    by (rule insert_blog_comment_notification_Inr)
  then show \<open>map bcn_message (blog_comment_notifications d')
         = map bcn_message (blog_comment_notifications d) @
           [coalesce (customer_display_name (bc_customer_id new) d) ''A customer''
              @ '' commented on your blog post "'' @ bp_title post @ ''": "''
              @ (if 100 < length (bc_content new)
                 then take 97 (bc_content new) @ ''...'' else bc_content new)
              @ ''"'']\<close>
    by simp
next
  assume \<open>list_ex (\<lambda>u. u_id u = c) (users d) \<and> stored_full_name c d = Some n\<close>
  then show \<open>coalesce (customer_display_name c d) ''A customer'' = n\<close>
    by (simp add: customer_display_name_cases coalesce_def)
next
  assume \<open>list_ex (\<lambda>u. u_id u = c) (users d) \<and> stored_full_name c d = None
        \<and> stored_email c d = Some e\<close>
  then show \<open>coalesce (customer_display_name c d) ''A customer''
         = takeWhile (\<lambda>x. x \<noteq> CHR ''@'') e\<close>
    by (simp add: customer_display_name_cases coalesce_def split_part_first_def)
next
  assume \<open>\<not> list_ex (\<lambda>u. u_id u = c) (users d)
        \<or> (stored_full_name c d = None \<and> stored_email c d = None)\<close>
  then show \<open>coalesce (customer_display_name c d) ''A customer'' = ''A customer''\<close>
    by (auto simp: customer_display_name_cases coalesce_def)
qed

theorem owner_notification_message_witness:
  \<open>(bc_parent_comment_id hello_comment = None
     \<and> find_blog_post (bc_blog_post_id hello_comment) hello_db
         = Some \<lparr>bp_id = 10, bp_restaurant_id = 1, bp_title = ''New menu'', bp_is_published = True\<rparr>
     \<and> handle_blog_comment_notification hello_comment hello_db
         = Inr (hello_db\<lparr>blog_comment_notifications :=
             [\<lparr>bcn_restaurant_id = 1,
               bcn_customer_id = 7,
               bcn_blog_post_id = 10,
               bcn_comment_id = 22,
               bcn_title = ''New Blog Comment'',
               bcn_message = ''Mya commented on your blog post "New menu": "Hello"'',
               bcn_status = ''unread'',
               bcn_comment_content = Some ''Hello''\<rparr>]\<rparr>))
   \<and> (list_ex (\<lambda>u. u_id u = 7) (users hello_db) \<and> stored_full_name 7 hello_db = Some ''Mya'')
   \<and> coalesce (customer_display_name 7 hello_db) ''A customer'' = ''Mya''
   \<and> (list_ex (\<lambda>u. u_id u = 9) (users email_db) \<and> stored_full_name 9 email_db = None
        \<and> stored_email 9 email_db = Some ''owner@bistro.example'')
   \<and> coalesce (customer_display_name 9 email_db) ''A customer'' = ''owner''
   \<and> (stored_full_name 8 nameless_db = None \<and> stored_email 8 nameless_db = None)
   \<and> coalesce (customer_display_name 8 nameless_db) ''A customer'' = ''A customer''\<close>
proof -
  let ?post = \<open>\<lparr>bp_id = 10, bp_restaurant_id = 1, bp_title = ''New menu'', bp_is_published = True\<rparr>\<close>
  let ?d' = \<open>hello_db\<lparr>blog_comment_notifications :=
             [\<lparr>bcn_restaurant_id = 1,
               bcn_customer_id = 7,
               bcn_blog_post_id = 10,
               bcn_comment_id = 22,
               bcn_title = ''New Blog Comment'',
               bcn_message = ''Mya commented on your blog post "New menu": "Hello"'',
               bcn_status = ''unread'',
               bcn_comment_content = Some ''Hello''\<rparr>]\<rparr>\<close>
  have h1: \<open>bc_parent_comment_id hello_comment = None
     \<and> find_blog_post (bc_blog_post_id hello_comment) hello_db = Some ?post
     \<and> handle_blog_comment_notification hello_comment hello_db = Inr ?d'\<close>
    by code_simp
  have h2: \<open>list_ex (\<lambda>u. u_id u = 7) (users hello_db) \<and> stored_full_name 7 hello_db = Some ''Mya''\<close>
    by code_simp
  have h3: \<open>list_ex (\<lambda>u. u_id u = 9) (users email_db) \<and> stored_full_name 9 email_db = None
        \<and> stored_email 9 email_db = Some ''owner@bistro.example''\<close>
    by code_simp
  have h4: \<open>stored_full_name 8 nameless_db = None \<and> stored_email 8 nameless_db = None\<close>
    by code_simp
  have tw: \<open>takeWhile (\<lambda>x. x \<noteq> CHR ''@'') ''owner@bistro.example'' = ''owner''\<close>
    by simp
  from owner_notification_message [of hello_comment hello_db ?post ?d' 7 \<open>''Mya''\<close>] h2
  have c2: \<open>coalesce (customer_display_name 7 hello_db) ''A customer'' = ''Mya''\<close>
    by blast
  from owner_notification_message [of hello_comment email_db ?post ?d' 9 \<open>''Mya''\<close> \<open>''owner@bistro.example''\<close>] h3
  have \<open>coalesce (customer_display_name 9 email_db) ''A customer''
      = takeWhile (\<lambda>x. x \<noteq> CHR ''@'') ''owner@bistro.example''\<close>
    by blast
  with tw have c3: \<open>coalesce (customer_display_name 9 email_db) ''A customer'' = ''owner''\<close>
    by simp
  from owner_notification_message [of hello_comment nameless_db ?post ?d' 8] h4
  have c4: \<open>coalesce (customer_display_name 8 nameless_db) ''A customer'' = ''A customer''\<close>
    by blast
  from h1 h2 h3 h4 c2 c3 c4 show ?thesis by blast
qed

section \<open>Comment notifications: one generator for each comment\<close>

text \<open>
  Claim C10. A reply (non-null parent) makes the owner-notification handler return the
  database as it is, a root comment (null parent) makes the reply-notification handler
  return the database as it is, so for every comment at least one of the two handlers
  writes nothing.
\<close>

theorem comment_guards_are_complementary:
  "(bc_parent_comment_id new \<noteq> None \<longrightarrow> handle_blog_comment_notification new d = Inr d)
   \<and> (bc_parent_comment_id new = None \<longrightarrow> handle_blog_comment_reply new d = d)
   \<and> (handle_blog_comment_notification new d = Inr d \<or> handle_blog_comment_reply new d = d)"
  by (auto simp: handle_blog_comment_notification_def handle_blog_comment_reply_def
      split: option.splits)

theorem comment_guards_are_complementary_witness:
  "bc_parent_comment_id (reply_comment 21 10 20 ''Thank you!'') \<noteq> None
   \<and> handle_blog_comment_notification (reply_comment 21 10 20 ''Thank you!'')
        (with_comment (reply_comment 21 10 20 ''Thank you!'') blog_db)
      = Inr (with_comment (reply_comment 21 10 20 ''Thank you!'') blog_db)
   \<and> length (customer_notifications (handle_blog_comment_reply (reply_comment 21 10 20 ''Thank you!'')
        (with_comment (reply_comment 21 10 20 ''Thank you!'') blog_db))) = 1
   \<and> bc_parent_comment_id (root_comment 22 7 ''Hello'') = None
   \<and> handle_blog_comment_reply (root_comment 22 7 ''Hello'')
        (with_comment (root_comment 22 7 ''Hello'') blog_db)
      = with_comment (root_comment 22 7 ''Hello'') blog_db
   \<and> handle_blog_comment_notification (root_comment 22 7 ''Hello'')
        (with_comment (root_comment 22 7 ''Hello'') blog_db)
      \<noteq> Inr (with_comment (root_comment 22 7 ''Hello'') blog_db)"
proof -
  let ?reply = "reply_comment 21 10 20 ''Thank you!''"
  let ?root = "root_comment 22 7 ''Hello''"
  have h1: "bc_parent_comment_id ?reply \<noteq> None" by (simp add: reply_comment_def)
  have h2: "bc_parent_comment_id ?root = None" by (simp add: root_comment_def)
  have h3: "length (customer_notifications (handle_blog_comment_reply ?reply
              (with_comment ?reply blog_db))) = 1"
    by code_simp
  have h4: "handle_blog_comment_notification ?root (with_comment ?root blog_db)
            \<noteq> Inr (with_comment ?root blog_db)"
    by code_simp
  from comment_guards_are_complementary [of ?reply "with_comment ?reply blog_db"]
       comment_guards_are_complementary [of ?root "with_comment ?root blog_db"]
       h1 h2 h3 h4
  show ?thesis by simp
qed

end
